theory Spec2Isabelle
  imports Complex_Main
begin

section \<open>Numbers and vectors\<close>

text \<open>
  The program is TypeScript: every \<open>number\<close> is an IEEE double.  Quantities that
  the code only compares, adds and scales (time accumulators, coordinates,
  velocities) are modelled as \<^typ>\<open>real\<close>; millisecond timestamps read from
  \<open>Date.now()\<close> are integers and are modelled as \<^typ>\<open>int\<close>; counters are
  \<^typ>\<open>int\<close> or \<^typ>\<open>nat\<close>.  Rounding is therefore not part of the model.
\<close>

subsection \<open>three.js vectors\<close>

text \<open>
  \<open>THREE.Vector3\<close> and \<open>THREE.Quaternion\<close> belong to the three.js library, not to
  this repository.  The operations the code calls are written out below as the
  library defines them; every one of them mutates its receiver and returns it, so
  a chain such as \<open>v.reflect(n).multiplyScalar(f)\<close> is function composition.
\<close>

datatype vec3 = Vec3 (vx: real) (vy: real) (vz: real)

datatype quat = Quat (qx: real) (qy: real) (qz: real) (qw: real)

definition Vector3_sub :: "vec3 \<Rightarrow> vec3 \<Rightarrow> vec3" where
  "Vector3_sub a b = Vec3 (vx a - vx b) (vy a - vy b) (vz a - vz b)"

definition Vector3_multiplyScalar :: "vec3 \<Rightarrow> real \<Rightarrow> vec3" where
  "Vector3_multiplyScalar v s = Vec3 (vx v * s) (vy v * s) (vz v * s)"

definition Vector3_addScaledVector :: "vec3 \<Rightarrow> vec3 \<Rightarrow> real \<Rightarrow> vec3" where
  "Vector3_addScaledVector a v s = Vec3 (vx a + vx v * s) (vy a + vy v * s) (vz a + vz v * s)"

definition Vector3_dot :: "vec3 \<Rightarrow> vec3 \<Rightarrow> real" where
  "Vector3_dot a b = vx a * vx b + vy a * vy b + vz a * vz b"

definition Vector3_lengthSq :: "vec3 \<Rightarrow> real" where
  "Vector3_lengthSq v = vx v * vx v + vy v * vy v + vz v * vz v"

definition Vector3_length :: "vec3 \<Rightarrow> real" where
  "Vector3_length v = sqrt (vx v * vx v + vy v * vy v + vz v * vz v)"

text \<open>\<open>normalize() { return this.divideScalar(this.length() || 1) }\<close>\<close>

definition Vector3_normalize :: "vec3 \<Rightarrow> vec3" where
  "Vector3_normalize v =
     (let l = (if Vector3_length v = 0 then 1 else Vector3_length v)
      in Vec3 (vx v / l) (vy v / l) (vz v / l))"

text \<open>\<open>reflect(normal) { return this.sub(_vector.copy(normal).multiplyScalar(2 * this.dot(normal))) }\<close>\<close>

definition Vector3_reflect :: "vec3 \<Rightarrow> vec3 \<Rightarrow> vec3" where
  "Vector3_reflect v normal =
     Vector3_sub v (Vector3_multiplyScalar normal (2 * Vector3_dot v normal))"

text \<open>
  \<open>applyQuaternion(q)\<close>: \<open>t = 2 * cross(q.xyz, v)\<close>, then
  \<open>v + q.w * t + cross(q.xyz, t)\<close>.
\<close>

definition Vector3_applyQuaternion :: "vec3 \<Rightarrow> quat \<Rightarrow> vec3" where
  "Vector3_applyQuaternion v q =
     (let tx = 2 * (qy q * vz v - qz q * vy v);
          ty = 2 * (qz q * vx v - qx q * vz v);
          tz = 2 * (qx q * vy v - qy q * vx v)
      in Vec3 (vx v + qw q * tx + qy q * tz - qz q * ty)
              (vy v + qw q * ty + qz q * tx - qx q * tz)
              (vz v + qw q * tz + qx q * ty - qy q * tx))"

text \<open>
  \<open>Quaternion.multiplyQuaternions(a, b)\<close>: the rotation \<open>b\<close> followed by the
  rotation \<open>a\<close>.  three.js composes the world rotation of an object this way,
  parent first.
\<close>

definition Quaternion_multiply :: "quat \<Rightarrow> quat \<Rightarrow> quat" where
  "Quaternion_multiply a b =
     Quat (qx a * qw b + qw a * qx b + qy a * qz b - qz a * qy b)
          (qy a * qw b + qw a * qy b + qz a * qx b - qx a * qz b)
          (qz a * qw b + qw a * qz b + qx a * qy b - qy a * qx b)
          (qw a * qw b - qx a * qx b - qy a * qy b - qz a * qz b)"

subsection \<open>JavaScript arithmetic\<close>

text \<open>\<open>Math.atan2(y, x)\<close> on the reals.\<close>

definition atan2 :: "real \<Rightarrow> real \<Rightarrow> real" where
  "atan2 y x =
     (if 0 < x then arctan (y / x)
      else if x < 0 \<and> 0 \<le> y then arctan (y / x) + pi
      else if x < 0 then arctan (y / x) - pi
      else if 0 < y then pi / 2
      else if y < 0 then - (pi / 2)
      else 0)"

text \<open>\<open>a % 1\<close>: the remainder of the division that truncates towards zero.\<close>

definition rem1 :: "real \<Rightarrow> real" where
  "rem1 a = a - of_int (if 0 \<le> a then \<lfloor>a\<rfloor> else \<lceil>a\<rceil>)"

section \<open>PhysicsWorld (src/physics/PhysicsWorld.ts)\<close>

text \<open>
  Rigid bodies are identified by a number.  The cannon.js engine is external: of
  \<open>CANNON.World\<close> the model keeps the set of bodies it holds (\<open>world_bodies\<close>) and
  the step sizes \<open>world.step\<close> has been called with, oldest first
  (\<open>world_steps\<close>).  \<open>bodies\<close> is the side registry, an array.
\<close>

record physics_world =
  accumulator :: real
  bodies :: "nat list"
  world_bodies :: "nat set"
  world_steps :: "real list"

text \<open>\<open>private timeStep: number = 1 / 60\<close>; the field is never assigned again.\<close>

definition timeStep :: real where
  "timeStep = 1 / 60"

text \<open>\<open>const maxSteps = 3\<close> in \<open>update\<close>.\<close>

definition maxSteps :: nat where
  "maxSteps = 3"

text \<open>
  The \<open>while (this.accumulator >= this.timeStep && steps < maxSteps)\<close> loop of
  \<open>update\<close>; the second component is the local counter \<open>steps\<close>.
\<close>

function update_loop :: "physics_world \<Rightarrow> nat \<Rightarrow> physics_world \<times> nat" where
  "update_loop w steps =
     (if timeStep \<le> accumulator w \<and> steps < maxSteps
      then update_loop
             (w\<lparr>world_steps := world_steps w @ [timeStep],
                accumulator := accumulator w - timeStep\<rparr>)
             (Suc steps)
      else (w, steps))"
  by pat_completeness auto
termination
  by (relation "measure (\<lambda>(w, steps). maxSteps - steps)") auto

declare update_loop.simps [simp del]

definition PhysicsWorld_update :: "physics_world \<Rightarrow> real \<Rightarrow> physics_world" where
  "PhysicsWorld_update w deltaTime =
     fst (update_loop (w\<lparr>accumulator := accumulator w + deltaTime\<rparr>) 0)"

text \<open>\<open>addBody\<close>: the engine first, then the side registry.\<close>

definition PhysicsWorld_addBody :: "physics_world \<Rightarrow> nat \<Rightarrow> physics_world" where
  "PhysicsWorld_addBody w body =
     w\<lparr>world_bodies := insert body (world_bodies w), bodies := bodies w @ [body]\<rparr>"

text \<open>
  The constructor configures the engine (gravity, broadphase, solver iterations)
  and registers the static ground plane, the body \<open>ground\<close>.
\<close>

definition PhysicsWorld_new :: "nat \<Rightarrow> physics_world" where
  "PhysicsWorld_new ground =
     PhysicsWorld_addBody
       \<lparr>accumulator = 0, bodies = [], world_bodies = {}, world_steps = []\<rparr> ground"

text \<open>
  \<open>removeBody\<close>: \<open>indexOf\<close>/\<open>splice\<close> drop the first occurrence from the
  registry; the engine drops the body from its own set.
\<close>

definition PhysicsWorld_removeBody :: "physics_world \<Rightarrow> nat \<Rightarrow> physics_world" where
  "PhysicsWorld_removeBody w body =
     w\<lparr>bodies := remove1 body (bodies w),
       world_bodies := world_bodies w - {body}\<rparr>"

section \<open>Ball (second part of src/objects/Seagull.ts)\<close>

text \<open>
  The physics-backed projectile.  Its mesh and its body are objects of three.js
  and cannon.js; the model keeps their identities, the mesh's transform, and
  whether the collide listener is still registered on the body.  The body's
  position and quaternion belong to the engine and are read at each \<open>update\<close>.
\<close>

record ball_state =
  mesh :: nat
  mesh_position :: vec3
  mesh_quaternion :: quat
  body :: nat
  collide_listener :: bool
  creationTime :: int
  onCollideCallback :: bool
  disposed :: bool

definition RADIUS :: real where
  "RADIUS = 0.2"

definition MASS :: real where
  "MASS = 1"

text \<open>\<open>private readonly LIFETIME = 5000; // milliseconds\<close>\<close>

definition LIFETIME :: int where
  "LIFETIME = 5000"

text \<open>
  The constructor.  \<open>mesh_id\<close> and \<open>body_id\<close> name the two objects it allocates,
  \<open>now\<close> is what \<open>Date.now()\<close> returns; the initial velocity goes to the body only.
\<close>

definition Ball_new :: "nat \<Rightarrow> nat \<Rightarrow> vec3 \<Rightarrow> bool \<Rightarrow> int \<Rightarrow> ball_state" where
  "Ball_new mesh_id body_id pos0 callback now =
     \<lparr>mesh = mesh_id, mesh_position = pos0, mesh_quaternion = Quat 0 0 0 1,
      body = body_id, collide_listener = callback, creationTime = now,
      onCollideCallback = callback, disposed = False\<rparr>"

text \<open>
  \<open>update()\<close>: \<open>body_pose\<close> is the body's current position and quaternion,
  \<open>currentTime\<close> what \<open>Date.now()\<close> returns.  The result pairs the ball after the
  call with the returned boolean.
\<close>

definition Ball_update :: "ball_state \<Rightarrow> vec3 \<times> quat \<Rightarrow> int \<Rightarrow> ball_state \<times> bool" where
  "Ball_update b body_pose currentTime =
     (if disposed b then (b, False)
      else (b\<lparr>mesh_position := fst body_pose, mesh_quaternion := snd body_pose\<rparr>,
            currentTime - creationTime b < LIFETIME))"

text \<open>
  \<open>dispose()\<close> returns the ball together with the calls it made on library
  objects, in order.  The mesh's material is the single \<open>MeshStandardMaterial\<close>
  the constructor made, so the array branch is never taken.
\<close>

datatype ball_effect = RemoveCollideListener | DisposeGeometry | DisposeMaterial

definition Ball_dispose :: "ball_state \<Rightarrow> ball_state \<times> ball_effect list" where
  "Ball_dispose b =
     (if disposed b then (b, [])
      else (b\<lparr>collide_listener := (if onCollideCallback b then False else collide_listener b),
              disposed := True\<rparr>,
            (if onCollideCallback b then [RemoveCollideListener] else [])
              @ [DisposeGeometry, DisposeMaterial]))"

section \<open>Seagull (first part of src/objects/Seagull.ts)\<close>

text \<open>
  The model (a \<open>THREE.Group\<close>) is reduced to its transform and to whether it has
  a parent; the only parent a seagull model is ever given is the scene.  The
  animation mixer is reduced to its clock and to whether its actions run.
\<close>

record group =
  position :: vec3
  rotation :: vec3
  scale :: vec3
  parent :: bool

record mixer_state =
  mixer_time :: real
  actions_running :: bool

record box3 =
  box_min :: vec3
  box_max :: vec3

text \<open>
  \<open>new CatmullRomCurve3(points, true)\<close>: the control points and the \<open>closed\<close>
  flag.  Sampling the spline (\<open>getPoint\<close>) is three.js code; functions that sample
  take it as the parameter \<open>getPoint\<close>.
\<close>

record curve =
  points :: "vec3 list"
  curve_closed :: bool

record seagull =
  model :: "group option"
  mixer :: "mixer_state option"
  path :: curve
  progress :: real
  speed :: real
  bounds :: box3
  modelLoaded :: bool
  isHit :: bool
  onHitCallback :: bool

text \<open>
  Calls a seagull makes on objects it does not own, in the order it makes them:
  the stored callback, \<open>parent.remove(model)\<close>, \<open>mixer.stopAllAction()\<close>, and the
  traversal that disposes every mesh's geometry and material.
\<close>

datatype seagull_effect = CallOnHit | SceneRemove | StopAllAction | DisposeMeshes

text \<open>
  \<open>Math.random()\<close> is modelled by a sequence \<open>rnd\<close> of numbers, read from a cursor
  that every function using randomness returns advanced; the numbers lie in
  \<open>[0, 1)\<close>, which theorems assume where they need it.
\<close>

definition random_point :: "box3 \<Rightarrow> (nat \<Rightarrow> real) \<Rightarrow> nat \<Rightarrow> vec3" where
  "random_point b rnd k =
     Vec3 (vx (box_min b) + rnd k * (vx (box_max b) - vx (box_min b)))
          (vy (box_min b) + 5 + rnd (k + 1) * 15)
          (vz (box_min b) + rnd (k + 2) * (vz (box_max b) - vz (box_min b)))"

text \<open>The \<open>for\<close> loop of \<open>createRandomPath\<close>, by the number of points still to push.\<close>

fun path_points :: "box3 \<Rightarrow> (nat \<Rightarrow> real) \<Rightarrow> nat \<Rightarrow> nat \<Rightarrow> vec3 list" where
  "path_points b rnd k 0 = []"
| "path_points b rnd k (Suc n) = random_point b rnd k # path_points b rnd (k + 3) n"

text \<open>\<open>createRandomPath\<close>, with \<open>b\<close> the current \<open>this.bounds\<close>.\<close>

definition createRandomPath :: "box3 \<Rightarrow> (nat \<Rightarrow> real) \<Rightarrow> nat \<Rightarrow> curve \<times> nat" where
  "createRandomPath b rnd k =
     (let numPoints = 5 + nat \<lfloor>rnd k * 3\<rfloor>
      in (\<lparr>points = path_points b rnd (k + 1) numPoints, curve_closed = True\<rparr>,
          k + 1 + 3 * numPoints))"

definition default_bounds :: box3 where
  "default_bounds = \<lparr>box_min = Vec3 (-100) 0 (-100), box_max = Vec3 100 50 100\<rparr>"

definition createFallbackModel :: "seagull \<Rightarrow> seagull" where
  "createFallbackModel g =
     g\<lparr>model := Some \<lparr>position = Vec3 0 0 0, rotation = Vec3 0 0 0,
                        scale = Vec3 2 2 2, parent = False\<rparr>,
       modelLoaded := True\<rparr>"

text \<open>
  The constructor: field initialisers, the first path, the speed, the fallback
  model, the callback.  \<open>loadModel\<close> only starts the asynchronous load; its
  success callback is \<open>Seagull_modelLoaded\<close>.
\<close>

definition Seagull_new :: "bool \<Rightarrow> (nat \<Rightarrow> real) \<Rightarrow> nat \<Rightarrow> seagull \<times> nat" where
  "Seagull_new callback rnd k =
     (let (p, k1) = createRandomPath default_bounds rnd k
      in (createFallbackModel
            \<lparr>model = None, mixer = None, path = p, progress = 0,
             speed = 0.03 + rnd k1 * 0.02, bounds = default_bounds,
             modelLoaded = False, isHit = False, onHitCallback = callback\<rparr>,
          k1 + 1))"

text \<open>
  The success callback of the loader: the old model leaves its parent, the loaded
  scene becomes the model and joins that parent if there was one.
\<close>

definition Seagull_modelLoaded :: "bool \<Rightarrow> seagull \<Rightarrow> seagull" where
  "Seagull_modelLoaded animations g =
     (let par = (case model g of Some m \<Rightarrow> parent m | None \<Rightarrow> False)
      in g\<lparr>model := Some \<lparr>position = Vec3 0 0 0, rotation = Vec3 0 pi 0,
                           scale = Vec3 2.5 2.5 2.5, parent = par\<rparr>,
           mixer := (if animations
                     then Some \<lparr>mixer_time = 0, actions_running = True\<rparr>
                     else mixer g),
           modelLoaded := True\<rparr>)"

text \<open>
  \<open>update()\<close>; \<open>delta\<close> is what \<open>this.clock.getDelta()\<close> returns.
\<close>

definition Seagull_update :: "(curve \<Rightarrow> real \<Rightarrow> vec3) \<Rightarrow> real \<Rightarrow> seagull \<Rightarrow> seagull" where
  "Seagull_update getPoint delta g =
     (case model g of
        None \<Rightarrow> g
      | Some m \<Rightarrow>
          if \<not> modelLoaded g then g
          else
            let mixer1 = map_option (\<lambda>x. x\<lparr>mixer_time := mixer_time x + delta\<rparr>) (mixer g);
                progress1 = progress g + speed g * delta;
                progress2 = (if progress1 > 1 then progress1 - 1 else progress1);
                currentPosition = getPoint (path g) progress2;
                lookAheadValue = 0.05;
                nextPosition = getPoint (path g) (rem1 (progress2 + lookAheadValue));
                m1 = m\<lparr>position := currentPosition\<rparr>;
                direction = Vector3_normalize (Vector3_sub nextPosition currentPosition);
                m2 = (if Vector3_length direction > 0.001
                      then
                        let targetRotation = atan2 (vx direction) (vz direction);
                            bankAngle = vx direction * (- 0.3);
                            verticalAngle = vy direction * 0.5
                        in m1\<lparr>rotation := Vec3 verticalAngle targetRotation bankAngle\<rparr>
                      else m1)
            in g\<lparr>mixer := mixer1, progress := progress2, model := Some m2\<rparr>)"

definition Seagull_setBounds ::
    "seagull \<Rightarrow> vec3 \<Rightarrow> vec3 \<Rightarrow> (nat \<Rightarrow> real) \<Rightarrow> nat \<Rightarrow> seagull \<times> nat" where
  "Seagull_setBounds g mn mx rnd k =
     (let b = \<lparr>box_min = mn, box_max = mx\<rparr>;
          (p, k1) = createRandomPath b rnd k
      in (g\<lparr>bounds := b, path := p\<rparr>, k1))"

definition Seagull_dispose :: "seagull \<Rightarrow> seagull \<times> seagull_effect list" where
  "Seagull_dispose g =
     (g\<lparr>mixer := map_option (\<lambda>x. x\<lparr>actions_running := False\<rparr>) (mixer g)\<rparr>,
      (if mixer g \<noteq> None then [StopAllAction] else [])
        @ (if model g \<noteq> None then [DisposeMeshes] else []))"

definition Seagull_hit :: "seagull \<Rightarrow> seagull \<times> seagull_effect list" where
  "Seagull_hit g =
     (if isHit g then (g, [])
      else
        let g1 = g\<lparr>isHit := True\<rparr>;
            e1 = (if onHitCallback g1 then [CallOnHit] else []);
            (g2, e2) = (case model g1 of
                          Some m \<Rightarrow>
                            if parent m
                            then (g1\<lparr>model := Some (m\<lparr>parent := False\<rparr>)\<rparr>, [SceneRemove])
                            else (g1, [])
                        | None \<Rightarrow> (g1, []));
            (g3, e3) = Seagull_dispose g2
        in (g3, e1 @ e2 @ e3))"

text \<open>\<open>n\<close> calls of \<open>hit()\<close> in a row, with everything they did.\<close>

fun Seagull_hit_times :: "nat \<Rightarrow> seagull \<Rightarrow> seagull \<times> seagull_effect list" where
  "Seagull_hit_times 0 g = (g, [])"
| "Seagull_hit_times (Suc n) g =
     (let (g1, e1) = Seagull_hit g;
          (g2, e2) = Seagull_hit_times n g1
      in (g2, e1 @ e2))"

section \<open>ExampleScene (second version in src/scenes/ExampleScene.ts)\<close>

text \<open>
  Of the scene graph the model keeps \<open>children\<close>, the ball meshes the scene holds
  (a seagull model records its own attachment in \<^const>\<open>parent\<close>).  The win screen
  is \<open>null\<close> or an element whose \<open>display\<close> is \<open>block\<close> (\<open>True\<close>) or \<open>none\<close>.
  Two fields record history: \<open>winSignals\<close> counts how often \<open>showWinScreen\<close> has
  switched the win screen on, and \<open>released\<close> lists what disposing balls has
  released, each entry with the ball's mesh.
\<close>

record scene =
  children :: "nat list"
  seagulls :: "seagull list"
  remainingSeagulls :: int
  winScreen :: "bool option"
  winSignals :: nat
  physicsWorld :: physics_world
  balls :: "ball_state list"
  released :: "(nat \<times> ball_effect) list"

definition NUM_SEAGULLS :: nat where
  "NUM_SEAGULLS = 5"

definition showWinScreen :: "scene \<Rightarrow> scene" where
  "showWinScreen s =
     (case winScreen s of
        Some d \<Rightarrow> s\<lparr>winScreen := Some True, winSignals := winSignals s + 1\<rparr>
      | None \<Rightarrow> s)"

definition handleSeagullHit :: "scene \<Rightarrow> scene" where
  "handleSeagullHit s =
     (let s1 = s\<lparr>remainingSeagulls := remainingSeagulls s - 1\<rparr>
      in if remainingSeagulls s1 \<le> 0 then showWinScreen s1 else s1)"

text \<open>
  The \<open>for\<close> loop of \<open>initSeagulls\<close>, by the number of seagulls still to create:
  each is constructed with the callback \<open>() => this.handleSeagullHit()\<close> and given
  the flight bounds of the island.  The timers that later add the models to the
  scene are \<open>Scene_addSeagullModel\<close> below.
\<close>

fun create_seagulls :: "nat \<Rightarrow> (nat \<Rightarrow> real) \<Rightarrow> nat \<Rightarrow> seagull list \<times> nat" where
  "create_seagulls 0 rnd k = ([], k)"
| "create_seagulls (Suc n) rnd k =
     (let (g, k1) = Seagull_new True rnd k;
          (g1, k2) = Seagull_setBounds g (Vec3 (-50) 15 (-50)) (Vec3 50 35 50) rnd k1;
          (gs, k3) = create_seagulls n rnd k2
      in (g1 # gs, k3))"

definition initSeagulls :: "scene \<Rightarrow> (nat \<Rightarrow> real) \<Rightarrow> nat \<Rightarrow> scene \<times> nat" where
  "initSeagulls s rnd k =
     (let (gs, k1) = create_seagulls NUM_SEAGULLS rnd k
      in (s\<lparr>remainingSeagulls := int NUM_SEAGULLS,
            seagulls := seagulls s @ gs,
            winScreen := Some False\<rparr>,
          k1))"

text \<open>The constructor: the field initialisers, \<open>initSeagulls\<close>, the physics world.\<close>

definition ExampleScene_new :: "nat \<Rightarrow> (nat \<Rightarrow> real) \<Rightarrow> nat \<Rightarrow> scene \<times> nat" where
  "ExampleScene_new ground rnd k =
     initSeagulls
       \<lparr>children = [], seagulls = [], remainingSeagulls = 0, winScreen = None,
        winSignals = 0, physicsWorld = PhysicsWorld_new ground, balls = [],
        released = []\<rparr>
       rnd k"

text \<open>The body of the timer callback for seagull \<open>i\<close>: \<open>this.add(model)\<close>.\<close>

definition Scene_addSeagullModel :: "nat \<Rightarrow> scene \<Rightarrow> scene" where
  "Scene_addSeagullModel i s =
     (if i < length (seagulls s)
      then (case model (seagulls s ! i) of
              Some m \<Rightarrow>
                s\<lparr>seagulls := (seagulls s)
                     [i := (seagulls s ! i)\<lparr>model := Some (m\<lparr>parent := True\<rparr>)\<rparr>]\<rparr>
            | None \<Rightarrow> s)
      else s)"

text \<open>
  \<open>resetGame\<close>: every remaining model leaves its parent, the list is emptied, and
  \<open>initSeagulls\<close> runs again.
\<close>

definition resetGame :: "scene \<Rightarrow> (nat \<Rightarrow> real) \<Rightarrow> nat \<Rightarrow> scene \<times> nat" where
  "resetGame s rnd k = initSeagulls (s\<lparr>seagulls := []\<rparr>) rnd k"

text \<open>
  A hit notification for the seagull at index \<open>i\<close> of \<open>this.seagulls\<close>: the call
  \<open>seagull.hit()\<close> made by the controls' raycast path and by \<open>onBallCollide\<close>,
  with the callback running \<open>handleSeagullHit\<close> on the scene.
\<close>

definition Scene_hit_seagull :: "nat \<Rightarrow> scene \<Rightarrow> scene" where
  "Scene_hit_seagull i s =
     (if i < length (seagulls s)
      then
        let (g1, es) = Seagull_hit (seagulls s ! i);
            s1 = s\<lparr>seagulls := (seagulls s)[i := g1]\<rparr>
        in if CallOnHit \<in> set es then handleSeagullHit s1 else s1
      else s)"

text \<open>Hit notifications for the seagulls at the listed indices, one after the other.\<close>

fun Scene_hit_seagulls :: "nat list \<Rightarrow> scene \<Rightarrow> scene" where
  "Scene_hit_seagulls [] s = s"
| "Scene_hit_seagulls (i # is) s = Scene_hit_seagulls is (Scene_hit_seagull i s)"

text \<open>
  \<open>throwBall\<close>; \<open>mesh_id\<close> and \<open>body_id\<close> name the objects the new ball allocates.
\<close>

definition throwBall :: "scene \<Rightarrow> nat \<Rightarrow> nat \<Rightarrow> vec3 \<Rightarrow> int \<Rightarrow> scene" where
  "throwBall s mesh_id body_id pos0 now =
     (let b = Ball_new mesh_id body_id pos0 True now
      in s\<lparr>physicsWorld := PhysicsWorld_addBody (physicsWorld s) (body b),
           children := children s @ [mesh b],
           balls := balls s @ [b]\<rparr>)"

text \<open>
  The loop \<open>for (let i = this.balls.length - 1; i >= 0; i--)\<close> of \<open>update\<close>; the
  counter of the model is \<open>i + 1\<close>.  \<open>pose\<close> gives, for a body, the position and
  quaternion the engine holds for it; \<open>now\<close> gives, for the ball with a given mesh,
  what \<open>Date.now()\<close> returns inside its \<open>update()\<close>.
\<close>

fun update_balls_loop ::
    "(nat \<Rightarrow> vec3 \<times> quat) \<Rightarrow> (nat \<Rightarrow> int) \<Rightarrow> nat \<Rightarrow> scene \<Rightarrow> scene" where
  "update_balls_loop pose now 0 s = s"
| "update_balls_loop pose now (Suc i) s =
     (let b = balls s ! i;
          (b1, isAlive) = Ball_update b (pose (body b)) (now (mesh b));
          s1 = s\<lparr>balls := (balls s)[i := b1]\<rparr>
      in update_balls_loop pose now i
           (if \<not> isAlive
            then
              let (b2, es) = Ball_dispose b1
              in s1\<lparr>children := remove1 (mesh b1) (children s1),
                    physicsWorld := PhysicsWorld_removeBody (physicsWorld s1) (body b1),
                    released := released s1 @ map (Pair (mesh b1)) es,
                    balls := take i (balls s1) @ drop (Suc i) (balls s1)\<rparr>
            else s1))"

text \<open>
  \<open>update()\<close> without its rendering parts (ocean, frustum culling): the physics
  step, every seagull's \<open>update()\<close> (\<open>deltas i\<close> is what the clock of seagull \<open>i\<close>
  returns), and the loop over the balls.
\<close>

definition ExampleScene_update ::
    "(curve \<Rightarrow> real \<Rightarrow> vec3) \<Rightarrow> real \<Rightarrow> (nat \<Rightarrow> real) \<Rightarrow> (nat \<Rightarrow> vec3 \<times> quat) \<Rightarrow> (nat \<Rightarrow> int)
       \<Rightarrow> scene \<Rightarrow> scene" where
  "ExampleScene_update getPoint deltaTime deltas pose now s =
     (let s1 = s\<lparr>physicsWorld := PhysicsWorld_update (physicsWorld s) deltaTime\<rparr>;
          s2 = s1\<lparr>seagulls :=
                  map (\<lambda>(i, g). Seagull_update getPoint (deltas i) g)
                      (enumerate 0 (seagulls s1))\<rparr>
      in update_balls_loop pose now (length (balls s2)) s2)"

section \<open>FirstPersonControls: the raycast projectile (src/FirstPersonControls.ts)\<close>

text \<open>
  A thrown ball of the controls is a mesh with a \<open>velocity\<close> property.  An
  intersection is what \<open>Raycaster.intersectObjects\<close> reports: the distance along
  the ray, the point (in world space), the face normal (in the space of the object
  hit) if the hit has a face, and the object hit.  Of that object the model keeps
  its identity, its \<open>userData.isSeagull\<close> tag, its \<open>quaternion\<close> (its rotation
  relative to its parent) and the rotation of its world matrix (what
  \<open>getWorldQuaternion\<close> returns: the rotations of its ancestors and its own,
  composed).  The code reads the first of the two rotations only.
\<close>

record projectile =
  ball_position :: vec3
  velocity :: vec3

record intersection =
  distance :: real
  point :: vec3
  face_normal :: "vec3 option"
  object_id :: nat
  object_isSeagull :: bool
  object_quaternion :: quat
  object_world_quaternion :: quat

definition BOUNCE_FACTOR :: real where
  "BOUNCE_FACTOR = 0.6"

text \<open>
  What one pass of the loop over \<open>this.balls\<close> does with a ball: it hit a seagull
  (the seagull is looked up from the object and the ball leaves the scene), it
  bounced, or it moved freely.
\<close>

datatype ball_outcome = HitSeagull nat | Bounced projectile | Moved projectile

text \<open>The code after the collision test: free flight, gravity, floor, rest.\<close>

definition move_freely :: "real \<Rightarrow> projectile \<Rightarrow> projectile" where
  "move_freely delta p =
     (let pos1 = Vector3_addScaledVector (ball_position p) (velocity p) delta;
          v1 = Vec3 (vx (velocity p)) (vy (velocity p) - 9.8 * delta) (vz (velocity p));
          (pos2, v2) =
            (if vy pos1 < 0
             then
               let vy1 = - vy v1 * BOUNCE_FACTOR
               in (Vec3 (vx pos1) 0 (vz pos1),
                   Vec3 (vx v1 * 0.95) (if \<bar>vy1\<bar> < 0.5 then 0 else vy1) (vz v1 * 0.95))
             else (pos1, v1));
          v3 = (if Vector3_lengthSq v2 < 0.1 then Vec3 0 0 0 else v2)
      in \<lparr>ball_position = pos2, velocity = v3\<rparr>)"

text \<open>
  The body of the loop for one ball.  \<open>collidable\<close> says whether
  \<open>collidableMeshes\<close> is non-empty; \<open>intersectObjects origin direction\<close> is the
  raycaster's answer, nearest first; \<open>delta\<close> is \<open>this.clock.delta / 1000\<close>.
\<close>

definition update_ball ::
    "bool \<Rightarrow> (vec3 \<Rightarrow> vec3 \<Rightarrow> intersection list) \<Rightarrow> real \<Rightarrow> projectile \<Rightarrow> ball_outcome" where
  "update_ball collidable intersectObjects delta p =
     (let moveDistance = Vector3_length (velocity p) * delta;
          intersections =
            (if collidable
             then intersectObjects (ball_position p) (Vector3_normalize (velocity p))
             else [])
      in case intersections of
           [] \<Rightarrow> Moved (move_freely delta p)
         | collision # rest \<Rightarrow>
             if distance collision < moveDistance
             then
               if object_isSeagull collision then HitSeagull (object_id collision)
               else
                 (case face_normal collision of
                    Some normal \<Rightarrow>
                      let normalWorld =
                            Vector3_applyQuaternion normal (object_quaternion collision)
                      in Bounced
                           \<lparr>ball_position =
                              Vector3_addScaledVector (point collision) normalWorld 0.2,
                            velocity =
                              Vector3_multiplyScalar
                                (Vector3_reflect (velocity p) normalWorld) BOUNCE_FACTOR\<rparr>
                  | None \<Rightarrow> Moved (move_freely delta p))
             else Moved (move_freely delta p))"

section \<open>Notions used to state the properties\<close>

text \<open>What \<open>ball.update()\<close> yields for a tracked ball in the scene's loop.\<close>

definition ball_after :: "(nat \<Rightarrow> vec3 \<times> quat) \<Rightarrow> (nat \<Rightarrow> int) \<Rightarrow> ball_state \<Rightarrow> ball_state \<times> bool" where
  "ball_after pose now b = Ball_update b (pose (body b)) (now (mesh b))"

text \<open>
  The state of a round in which exactly the seagulls with index in \<open>H\<close> have been
  hit, \<open>w0\<close> being the number of win signals given before the round.
\<close>

definition round_state :: "nat \<Rightarrow> nat set \<Rightarrow> scene \<Rightarrow> bool" where
  "round_state w0 H s =
     (length (seagulls s) = NUM_SEAGULLS \<and>
      (\<forall>i<NUM_SEAGULLS. onHitCallback (seagulls s ! i) \<and> isHit (seagulls s ! i) = (i \<in> H)) \<and>
      remainingSeagulls s = int NUM_SEAGULLS - int (card (H \<inter> {..<NUM_SEAGULLS})) \<and>
      winScreen s = Some ({..<NUM_SEAGULLS} \<subseteq> H) \<and>
      winSignals s = w0 + (if {..<NUM_SEAGULLS} \<subseteq> H then 1 else 0))"

text \<open>
  The number of whole timesteps contained in an amount of accumulated time, capped
  at \<open>maxSteps\<close>.
\<close>

definition steps_due :: "real \<Rightarrow> nat" where
  "steps_due a =
     (if a < timeStep then 0
      else if a < 2 * timeStep then 1
      else if a < 3 * timeStep then 2
      else 3)"

text \<open>
  The bounce as claim C7 words it: the velocity reflected about the world-space
  normal of the face hit and scaled by the bounce factor, the ball put at the
  impact point plus 0.2 times that normal.  The world-space normal of a face is
  its normal rotated by the world rotation of the object.
\<close>

definition bounce_about_world_normal :: "intersection \<Rightarrow> vec3 \<Rightarrow> projectile \<Rightarrow> projectile" where
  "bounce_about_world_normal collision normal p =
     (let normalWorld = Vector3_applyQuaternion normal (object_world_quaternion collision)
      in \<lparr>ball_position = Vector3_addScaledVector (point collision) normalWorld 0.2,
          velocity =
            Vector3_multiplyScalar (Vector3_reflect (velocity p) normalWorld) BOUNCE_FACTOR\<rparr>)"

text \<open>A point lies within an axis-aligned box (three.js: \<open>Box3.containsPoint\<close>).\<close>

definition in_box :: "box3 \<Rightarrow> vec3 \<Rightarrow> bool" where
  "in_box b p =
     (vx (box_min b) \<le> vx p \<and> vx p \<le> vx (box_max b) \<and>
      vy (box_min b) \<le> vy p \<and> vy p \<le> vy (box_max b) \<and>
      vz (box_min b) \<le> vz p \<and> vz p \<le> vz (box_max b))"

section \<open>Example states\<close>

text \<open>A source of randomness that returns the same number every time.\<close>

definition constant_random :: "real \<Rightarrow> nat \<Rightarrow> real" where
  "constant_random r i = r"

text \<open>
  A seagull as the constructor leaves it (fallback model, callback stored, every
  random number 1/2, so its speed is 0.04), after the scene's timer has added its
  model to the scene.
\<close>

definition example_seagull :: seagull where
  "example_seagull =
     (let g = fst (Seagull_new True (constant_random (1 / 2)) 0)
      in g\<lparr>model := map_option (\<lambda>m. m\<lparr>parent := True\<rparr>) (model g)\<rparr>)"

text \<open>
  A sampler for a very short stretch of path: samples taken 0.05 apart in the
  parameter lie 0.0005 apart in space.
\<close>

definition example_getPoint :: "curve \<Rightarrow> real \<Rightarrow> vec3" where
  "example_getPoint c t = Vec3 (t / 100) 20 0"

text \<open>A sampler for a path that has shrunk to one point.\<close>

definition resting_getPoint :: "curve \<Rightarrow> real \<Rightarrow> vec3" where
  "resting_getPoint c t = Vec3 0 20 0"

text \<open>
  A scene in the middle of a game: the scene as constructed (ground plane 0, every
  random number 1/2), then two balls thrown at times 1000 and 4000.
\<close>

definition example_balls_scene :: scene where
  "example_balls_scene =
     throwBall
       (throwBall (fst (ExampleScene_new 0 (constant_random (1 / 2)) 0))
          10 20 (Vec3 0 2 0) 1000)
       11 21 (Vec3 0 2 0) 4000"

text \<open>
  A raycaster that always reports one hit: the upward-facing face of an unrotated
  object that is no seagull and has no rotated ancestor, at the origin, 0.01 away.
\<close>

definition example_intersectObjects :: "vec3 \<Rightarrow> vec3 \<Rightarrow> intersection list" where
  "example_intersectObjects origin direction =
     [\<lparr>distance = 1 / 100, point = Vec3 0 0 0, face_normal = Some (Vec3 0 1 0),
       object_id = 7, object_isSeagull = False, object_quaternion = Quat 0 0 0 1,
       object_world_quaternion = Quat 0 0 0 1\<rparr>]"

text \<open>
  A hit on a mesh nested in a rotated group.  The mesh is turned by a third of a
  turn about the axis (1, 1, 1) relative to its parent (the rotation takes the
  x axis to the y axis), and the parent is turned in the world by the same
  rotation, so that the mesh's world rotation is two thirds of a turn about that
  axis (it takes the x axis to the z axis).  The face hit has normal (1, 0, 0) in
  the mesh's own space.
\<close>

definition nested_collision :: intersection where
  "nested_collision =
     \<lparr>distance = 1 / 100, point = Vec3 0 0 0, face_normal = Some (Vec3 1 0 0),
      object_id = 8, object_isSeagull = False,
      object_quaternion = Quat (1 / 2) (1 / 2) (1 / 2) (1 / 2),
      object_world_quaternion = Quat (1 / 2) (1 / 2) (1 / 2) (- (1 / 2))\<rparr>"

definition nested_intersectObjects :: "vec3 \<Rightarrow> vec3 \<Rightarrow> intersection list" where
  "nested_intersectObjects origin direction = [nested_collision]"

text \<open>A ball 0.01 away from the origin, flying towards it with speed 5.\<close>

definition incoming_ball :: projectile where
  "incoming_ball = \<lparr>ball_position = Vec3 0 (3 / 500) (1 / 125), velocity = Vec3 0 (- 3) (- 4)\<rparr>"

section \<open>Properties of PhysicsWorld\<close>

lemma update_loop_spec:
  "update_loop w steps = (w', steps') \<Longrightarrow>
     steps \<le> steps' \<and> (steps \<le> maxSteps \<longrightarrow> steps' \<le> maxSteps) \<and>
     world_steps w' = world_steps w @ replicate (steps' - steps) timeStep \<and>
     accumulator w' = accumulator w - real (steps' - steps) * timeStep \<and>
     bodies w' = bodies w \<and> world_bodies w' = world_bodies w \<and>
     (accumulator w' < timeStep \<or> maxSteps \<le> steps')"
proof (induction w steps arbitrary: w' steps' rule: update_loop.induct)
  case (1 w steps)
  show ?case
  proof (cases "timeStep \<le> accumulator w \<and> steps < maxSteps")
    case True
    let ?w1 = "w\<lparr>world_steps := world_steps w @ [timeStep],
                   accumulator := accumulator w - timeStep\<rparr>"
    from True "1.prems" have run: "update_loop ?w1 (Suc steps) = (w', steps')"
      by (subst (asm) update_loop.simps) simp
    note ih = "1.IH"[OF True run]
    from ih have le: "Suc steps \<le> steps'" by simp
    then have diff: "steps' - steps = Suc (steps' - Suc steps)" by simp
    from ih True le show ?thesis
      unfolding diff by (auto simp: algebra_simps)
  next
    case False
    with "1.prems" have "w' = w" "steps' = steps"
      by (subst (asm) update_loop.simps, simp)+
    with False show ?thesis by auto
  qed
qed

lemma PhysicsWorld_update_spec:
  "\<exists>k\<le>3. world_steps (PhysicsWorld_update w dt) = world_steps w @ replicate k timeStep \<and>
     accumulator (PhysicsWorld_update w dt) = accumulator w + dt - real k * timeStep \<and>
     bodies (PhysicsWorld_update w dt) = bodies w \<and>
     world_bodies (PhysicsWorld_update w dt) = world_bodies w \<and>
     (accumulator (PhysicsWorld_update w dt) < timeStep \<or> k = 3)"
proof -
  obtain w' k where run: "update_loop (w\<lparr>accumulator := accumulator w + dt\<rparr>) 0 = (w', k)"
    by (cases "update_loop (w\<lparr>accumulator := accumulator w + dt\<rparr>) 0")
  have res: "PhysicsWorld_update w dt = w'"
    by (simp add: PhysicsWorld_update_def run)
  from update_loop_spec[OF run] have "k \<le> 3"
    and "world_steps w' = world_steps w @ replicate k timeStep"
    and "accumulator w' = accumulator w + dt - real k * timeStep"
    and "bodies w' = bodies w" and "world_bodies w' = world_bodies w"
    and "accumulator w' < timeStep \<or> k = 3"
    by (auto simp: maxSteps_def)
  then show ?thesis unfolding res by blast
qed

lemma update_loop_nonneg:
  "update_loop w steps = (w', steps') \<Longrightarrow> steps < steps' \<Longrightarrow> 0 \<le> accumulator w'"
proof (induction w steps arbitrary: w' steps' rule: update_loop.induct)
  case (1 w steps)
  show ?case
  proof (cases "timeStep \<le> accumulator w \<and> steps < maxSteps")
    case True
    let ?w1 = "w\<lparr>world_steps := world_steps w @ [timeStep],
                   accumulator := accumulator w - timeStep\<rparr>"
    from True "1.prems"(1) have run: "update_loop ?w1 (Suc steps) = (w', steps')"
      by (subst (asm) update_loop.simps) simp
    show ?thesis
    proof (cases "Suc steps < steps'")
      case True
      with "1.IH"[OF \<open>timeStep \<le> accumulator w \<and> steps < maxSteps\<close> run] show ?thesis .
    next
      case False
      with update_loop_spec[OF run] have last: "steps' = Suc steps" by simp
      from update_loop_spec[OF run] have "accumulator w' = accumulator ?w1"
        unfolding last by simp
      with True show ?thesis by simp
    qed
  next
    case False
    with "1.prems"(1) have "steps' = steps"
      by (subst (asm) update_loop.simps) simp
    with "1.prems"(2) show ?thesis by simp
  qed
qed

lemma PhysicsWorld_update_steps:
  "world_steps (PhysicsWorld_update w dt) =
     world_steps w @ replicate (steps_due (accumulator w + dt)) timeStep \<and>
   accumulator (PhysicsWorld_update w dt) =
     accumulator w + dt - real (steps_due (accumulator w + dt)) * timeStep"
proof -
  let ?w0 = "w\<lparr>accumulator := accumulator w + dt\<rparr>"
  obtain w' k where run: "update_loop ?w0 0 = (w', k)"
    by (cases "update_loop ?w0 0")
  have res: "PhysicsWorld_update w dt = w'"
    by (simp add: PhysicsWorld_update_def run)
  from update_loop_spec[OF run] have k: "k \<le> 3"
    and st: "world_steps w' = world_steps w @ replicate k timeStep"
    and acc: "accumulator w' = accumulator w + dt - real k * timeStep"
    and fin: "accumulator w' < timeStep \<or> k = 3"
    by (auto simp: maxSteps_def)
  have low: "0 \<le> accumulator w'" if "0 < k"
    using update_loop_nonneg[OF run that] .
  have cases: "k = 0 \<or> k = 1 \<or> k = 2 \<or> k = 3" using k by linarith
  have "k = steps_due (accumulator w + dt)"
    using cases acc fin low unfolding steps_due_def timeStep_def
    by (auto split: if_splits)
  with st acc show ?thesis unfolding res by simp
qed

text \<open>
  Claim C4.  For every call \<open>update(dt)\<close>, whatever \<open>dt\<close> and the accumulator
  hold beforehand (so in particular for every \<open>dt \<ge> 0\<close>), the loop hands the engine
  at most three steps, each of size 1/60 s.  The loop itself is the total function
  \<^const>\<open>update_loop\<close>: its termination proof uses the measure
  \<open>maxSteps - steps\<close>, so no call of \<open>update\<close> runs forever.
\<close>

theorem C4_update_at_most_three_fixed_steps:
  "\<exists>k. k \<le> 3 \<and>
     world_steps (PhysicsWorld_update w dt) = world_steps w @ replicate k (1 / 60)"
  using PhysicsWorld_update_spec[of w dt] by (auto simp: timeStep_def)

theorem C4_update_at_most_three_fixed_steps_witness:
  "\<exists>k. k \<le> 3 \<and>
     world_steps (PhysicsWorld_update
        \<lparr>accumulator = 0, bodies = [0], world_bodies = {0}, world_steps = []\<rparr> 1000)
       = [] @ replicate k (1 / 60)"
  using C4_update_at_most_three_fixed_steps
    [of "\<lparr>accumulator = 0, bodies = [0], world_bodies = {0}, world_steps = []\<rparr>" 1000]
  by simp

text \<open>
  Claim C5 as stated: after \<open>update(dt)\<close> only a remainder smaller than one
  timestep is left in the accumulator, the excess beyond the three-step cap being
  discarded.  The code discards nothing.  Starting from an empty accumulator, a
  one-second frame leaves 1 - 3/60 = 19/20 s in the accumulator, far more than one
  timestep.
\<close>

theorem C5_excess_not_discarded_counterexample:
  "accumulator (PhysicsWorld_update
      \<lparr>accumulator = 0, bodies = [], world_bodies = {}, world_steps = []\<rparr> 1) = 19 / 20
   \<and> \<not> accumulator (PhysicsWorld_update
      \<lparr>accumulator = 0, bodies = [], world_bodies = {}, world_steps = []\<rparr> 1) < timeStep"
proof -
  let ?w = "\<lparr>accumulator = 0, bodies = [], world_bodies = {}, world_steps = []\<rparr>"
  from PhysicsWorld_update_spec[of ?w 1] obtain k where k: "k \<le> 3"
    and acc: "accumulator (PhysicsWorld_update ?w 1) = 1 - real k * timeStep"
    and fin: "accumulator (PhysicsWorld_update ?w 1) < timeStep \<or> k = 3"
    by auto
  from k have "real k * timeStep \<le> 3 * timeStep"
    by (simp add: timeStep_def)
  with acc have "\<not> accumulator (PhysicsWorld_update ?w 1) < timeStep"
    by (simp add: timeStep_def)
  with fin acc show ?thesis by (simp add: timeStep_def)
qed

text \<open>
  Claim C5, amended.  \<open>update(dt)\<close> performs as many steps as whole timesteps
  fit into the old accumulator plus \<open>dt\<close>, but at most three, and subtracts from
  the accumulator exactly one timestep per step performed and nothing else: no
  accumulated time is discarded.  The remainder kept for the next call is smaller
  than one timestep exactly when the accumulated time was below four timesteps.
  When it was three timesteps or more, three steps are performed and the whole
  excess beyond them stays in the accumulator.
\<close>

theorem C5_update_keeps_whole_remainder:
  "world_steps (PhysicsWorld_update w dt) =
     world_steps w @ replicate (steps_due (accumulator w + dt)) timeStep \<and>
   accumulator (PhysicsWorld_update w dt) =
     accumulator w + dt - real (steps_due (accumulator w + dt)) * timeStep \<and>
   (accumulator (PhysicsWorld_update w dt) < timeStep) =
     (accumulator w + dt < 4 * timeStep) \<and>
   (3 * timeStep \<le> accumulator w + dt \<longrightarrow>
      world_steps (PhysicsWorld_update w dt) = world_steps w @ [timeStep, timeStep, timeStep] \<and>
      accumulator (PhysicsWorld_update w dt) = accumulator w + dt - 3 * timeStep)"
proof -
  note run = PhysicsWorld_update_steps[of w dt]
  have three: "steps_due (accumulator w + dt) = 3" if "3 * timeStep \<le> accumulator w + dt"
    using that by (simp add: steps_due_def timeStep_def)
  have rep: "replicate 3 timeStep = [timeStep, timeStep, timeStep]"
    by (simp add: numeral_3_eq_3)
  have small: "(accumulator (PhysicsWorld_update w dt) < timeStep) =
     (accumulator w + dt < 4 * timeStep)"
    using run by (auto simp: steps_due_def timeStep_def split: if_splits)
  from run small three rep show ?thesis by simp
qed

theorem C5_update_keeps_whole_remainder_witness:
  "world_steps (PhysicsWorld_update
      \<lparr>accumulator = 0, bodies = [], world_bodies = {}, world_steps = []\<rparr> 1)
     = [1 / 60, 1 / 60, 1 / 60] \<and>
   accumulator (PhysicsWorld_update
      \<lparr>accumulator = 0, bodies = [], world_bodies = {}, world_steps = []\<rparr> 1) = 19 / 20 \<and>
   world_steps (PhysicsWorld_update
      \<lparr>accumulator = 0, bodies = [], world_bodies = {}, world_steps = []\<rparr> (1 / 40))
     = [1 / 60] \<and>
   accumulator (PhysicsWorld_update
      \<lparr>accumulator = 0, bodies = [], world_bodies = {}, world_steps = []\<rparr> (1 / 40)) = 1 / 120"
  using C5_update_keeps_whole_remainder
    [of "\<lparr>accumulator = 0, bodies = [], world_bodies = {}, world_steps = []\<rparr>" 1]
    C5_update_keeps_whole_remainder
    [of "\<lparr>accumulator = 0, bodies = [], world_bodies = {}, world_steps = []\<rparr>" "1 / 40"]
  by (simp add: timeStep_def steps_due_def numeral_3_eq_3)

section \<open>Properties of Ball\<close>

lemma Ball_update_alive:
  "\<not> disposed b \<Longrightarrow> snd (Ball_update b p t) = (t - creationTime b < 5000)"
  by (simp add: Ball_update_def LIFETIME_def)

lemma Ball_dispose_effects:
  "\<not> disposed b \<Longrightarrow>
   count_list (snd (Ball_dispose (fst (Ball_update b p t)))) DisposeGeometry = 1 \<and>
   count_list (snd (Ball_dispose (fst (Ball_update b p t)))) DisposeMaterial = 1"
  by (simp add: Ball_update_def Ball_dispose_def)

text \<open>
  Claim C10.  Once \<open>dispose()\<close> has run on a ball, \<open>update()\<close> returns \<open>false\<close>
  and leaves the ball as it is, whatever the body's pose and the time (so also
  while the ball is younger than its lifetime), and another \<open>dispose()\<close> changes
  nothing and calls nothing.
\<close>

theorem C10_disposed_ball_is_inert:
  "Ball_update (fst (Ball_dispose b)) body_pose currentTime = (fst (Ball_dispose b), False) \<and>
   Ball_dispose (fst (Ball_dispose b)) = (fst (Ball_dispose b), [])"
  by (simp add: Ball_update_def Ball_dispose_def)

theorem C10_disposed_ball_is_inert_witness:
  "200 - creationTime (Ball_new 1 2 (Vec3 0 2 0) True 100) < LIFETIME \<and>
   Ball_update (fst (Ball_dispose (Ball_new 1 2 (Vec3 0 2 0) True 100)))
       (Vec3 3 4 5, Quat 0 0 0 1) 200
     = (fst (Ball_dispose (Ball_new 1 2 (Vec3 0 2 0) True 100)), False) \<and>
   Ball_dispose (fst (Ball_dispose (Ball_new 1 2 (Vec3 0 2 0) True 100)))
     = (fst (Ball_dispose (Ball_new 1 2 (Vec3 0 2 0) True 100)), [])"
  using C10_disposed_ball_is_inert
    [of "Ball_new 1 2 (Vec3 0 2 0) True 100" "(Vec3 3 4 5, Quat 0 0 0 1)" 200]
  by (simp add: Ball_new_def LIFETIME_def)

section \<open>Properties of the scene's loop over the balls\<close>

lemma Ball_update_ids:
  "mesh (fst (Ball_update b p t)) = mesh b" "body (fst (Ball_update b p t)) = body b"
  by (simp_all add: Ball_update_def)

lemma loop_step_alive:
  "snd (ball_after pose now (balls s ! i)) \<Longrightarrow>
   update_balls_loop pose now (Suc i) s =
     update_balls_loop pose now i
       (s\<lparr>balls := (balls s)[i := fst (ball_after pose now (balls s ! i))]\<rparr>)"
  by (simp add: ball_after_def Let_def case_prod_beta)

lemma loop_step_dead:
  "\<not> snd (ball_after pose now (balls s ! i)) \<Longrightarrow> i < length (balls s) \<Longrightarrow>
   update_balls_loop pose now (Suc i) s =
     update_balls_loop pose now i
       (s\<lparr>children := remove1 (mesh (balls s ! i)) (children s),
          physicsWorld := PhysicsWorld_removeBody (physicsWorld s) (body (balls s ! i)),
          released := released s @
             map (Pair (mesh (balls s ! i)))
                 (snd (Ball_dispose (fst (ball_after pose now (balls s ! i))))),
          balls := take i (balls s) @ drop (Suc i) (balls s)\<rparr>)"
  by (simp add: ball_after_def Let_def case_prod_beta Ball_update_ids)

lemma loop_balls:
  "i \<le> length (balls s) \<Longrightarrow>
   balls (update_balls_loop pose now i s) =
     map (\<lambda>b. fst (ball_after pose now b))
         (filter (\<lambda>b. snd (ball_after pose now b)) (take i (balls s)))
     @ drop i (balls s)"
proof (induction i arbitrary: s)
  case 0
  then show ?case by simp
next
  case (Suc i)
  let ?b = "balls s ! i"
  from Suc.prems have i: "i < length (balls s)" by simp
  have tk: "take (Suc i) (balls s) = take i (balls s) @ [?b]"
    using i by (simp add: take_Suc_conv_app_nth)
  show ?case
  proof (cases "snd (ball_after pose now ?b)")
    case True
    show ?thesis
      unfolding loop_step_alive[OF True] tk using True i
      by (subst Suc.IH) (simp_all add: drop_update_cancel upd_conv_take_nth_drop Cons_nth_drop_Suc)
  next
    case False
    show ?thesis
      unfolding loop_step_dead[OF False i] tk using False i
      by (subst Suc.IH) simp_all
  qed
qed

lemma loop_children:
  "i \<le> length (balls s) \<Longrightarrow> distinct (children s) \<Longrightarrow>
   distinct (children (update_balls_loop pose now i s)) \<and>
   set (children (update_balls_loop pose now i s)) =
     set (children s) - mesh ` {b \<in> set (take i (balls s)). \<not> snd (ball_after pose now b)}"
proof (induction i arbitrary: s)
  case 0
  then show ?case by simp
next
  case (Suc i)
  let ?b = "balls s ! i"
  from Suc.prems have i: "i < length (balls s)" by simp
  have tk: "take (Suc i) (balls s) = take i (balls s) @ [?b]"
    using i by (simp add: take_Suc_conv_app_nth)
  show ?case
  proof (cases "snd (ball_after pose now ?b)")
    case True
    let ?s1 = "s\<lparr>balls := (balls s)[i := fst (ball_after pose now ?b)]\<rparr>"
    have "i \<le> length (balls ?s1)" "distinct (children ?s1)"
      using i Suc.prems by simp_all
    from Suc.IH[OF this] show ?thesis
      unfolding loop_step_alive[OF True] tk using True i by auto
  next
    case False
    let ?s2 = "s\<lparr>children := remove1 (mesh ?b) (children s),
          physicsWorld := PhysicsWorld_removeBody (physicsWorld s) (body ?b),
          released := released s @
             map (Pair (mesh ?b)) (snd (Ball_dispose (fst (ball_after pose now ?b)))),
          balls := take i (balls s) @ drop (Suc i) (balls s)\<rparr>"
    have "i \<le> length (balls ?s2)" "distinct (children ?s2)"
      using i Suc.prems by simp_all
    from Suc.IH[OF this] show ?thesis
      unfolding loop_step_dead[OF False i] tk using False i Suc.prems(2) by auto
  qed
qed

lemma loop_bodies:
  "i \<le> length (balls s) \<Longrightarrow> distinct (bodies (physicsWorld s)) \<Longrightarrow>
   distinct (bodies (physicsWorld (update_balls_loop pose now i s))) \<and>
   set (bodies (physicsWorld (update_balls_loop pose now i s))) =
     set (bodies (physicsWorld s))
       - body ` {b \<in> set (take i (balls s)). \<not> snd (ball_after pose now b)}"
proof (induction i arbitrary: s)
  case 0
  then show ?case by simp
next
  case (Suc i)
  let ?b = "balls s ! i"
  from Suc.prems have i: "i < length (balls s)" by simp
  have tk: "take (Suc i) (balls s) = take i (balls s) @ [?b]"
    using i by (simp add: take_Suc_conv_app_nth)
  show ?case
  proof (cases "snd (ball_after pose now ?b)")
    case True
    let ?s1 = "s\<lparr>balls := (balls s)[i := fst (ball_after pose now ?b)]\<rparr>"
    have "i \<le> length (balls ?s1)" "distinct (bodies (physicsWorld ?s1))"
      using i Suc.prems by simp_all
    from Suc.IH[OF this] show ?thesis
      unfolding loop_step_alive[OF True] tk using True i by auto
  next
    case False
    let ?s2 = "s\<lparr>children := remove1 (mesh ?b) (children s),
          physicsWorld := PhysicsWorld_removeBody (physicsWorld s) (body ?b),
          released := released s @
             map (Pair (mesh ?b)) (snd (Ball_dispose (fst (ball_after pose now ?b)))),
          balls := take i (balls s) @ drop (Suc i) (balls s)\<rparr>"
    have "i \<le> length (balls ?s2)" "distinct (bodies (physicsWorld ?s2))"
      using i Suc.prems by (simp_all add: PhysicsWorld_removeBody_def)
    from Suc.IH[OF this] show ?thesis
      unfolding loop_step_dead[OF False i] tk using False i Suc.prems(2)
      by (auto simp: PhysicsWorld_removeBody_def)
  qed
qed

lemma loop_released:
  "i \<le> length (balls s) \<Longrightarrow>
   released (update_balls_loop pose now i s) =
     released s @
     concat (map (\<lambda>b. map (Pair (mesh b)) (snd (Ball_dispose (fst (ball_after pose now b)))))
                 (rev (filter (\<lambda>b. \<not> snd (ball_after pose now b)) (take i (balls s)))))"
proof (induction i arbitrary: s)
  case 0
  then show ?case by simp
next
  case (Suc i)
  let ?b = "balls s ! i"
  from Suc.prems have i: "i < length (balls s)" by simp
  have tk: "take (Suc i) (balls s) = take i (balls s) @ [?b]"
    using i by (simp add: take_Suc_conv_app_nth)
  show ?case
  proof (cases "snd (ball_after pose now ?b)")
    case True
    show ?thesis
      unfolding loop_step_alive[OF True] tk using True i
      by (subst Suc.IH) simp_all
  next
    case False
    show ?thesis
      unfolding loop_step_dead[OF False i] tk using False i
      by (subst Suc.IH) simp_all
  qed
qed

lemma loop_frame:
  "seagulls (update_balls_loop pose now i s) = seagulls s \<and>
   remainingSeagulls (update_balls_loop pose now i s) = remainingSeagulls s \<and>
   winScreen (update_balls_loop pose now i s) = winScreen s \<and>
   winSignals (update_balls_loop pose now i s) = winSignals s"
  by (induction i arbitrary: s) (simp_all add: Let_def case_prod_beta)

lemma loop_world_bodies:
  "i \<le> length (balls s) \<Longrightarrow>
   world_bodies (physicsWorld (update_balls_loop pose now i s)) =
     world_bodies (physicsWorld s)
       - body ` {b \<in> set (take i (balls s)). \<not> snd (ball_after pose now b)}"
proof (induction i arbitrary: s)
  case 0
  then show ?case by simp
next
  case (Suc i)
  let ?b = "balls s ! i"
  from Suc.prems have i: "i < length (balls s)" by simp
  have tk: "take (Suc i) (balls s) = take i (balls s) @ [?b]"
    using i by (simp add: take_Suc_conv_app_nth)
  show ?case
  proof (cases "snd (ball_after pose now ?b)")
    case True
    show ?thesis
      unfolding loop_step_alive[OF True] tk using True i
      by (subst Suc.IH) auto
  next
    case False
    show ?thesis
      unfolding loop_step_dead[OF False i] tk using False i
      by (subst Suc.IH) (auto simp: PhysicsWorld_removeBody_def)
  qed
qed

lemma count_pairs_other:
  "\<forall>x\<in>set xs. f x \<noteq> m \<Longrightarrow>
   count_list (concat (map (\<lambda>b. map (Pair (f b)) (g b)) xs)) (m, e) = 0"
  by (induction xs) (auto simp: count_list_0_iff)

lemma count_pairs_one:
  "b \<in> set xs \<Longrightarrow> distinct (map f xs) \<Longrightarrow>
   count_list (concat (map (\<lambda>b. map (Pair (f b)) (g b)) xs)) (f b, e) = count_list (g b) e"
proof (induction xs)
  case Nil
  then show ?case by simp
next
  case (Cons x xs)
  have pair: "\<And>m es. count_list (map (Pair m) es) (m, e) = count_list es e"
  proof -
    fix m es show "count_list (map (Pair m) es) (m, e) = count_list es e"
      by (induction es) auto
  qed
  show ?case
  proof (cases "x = b")
    case True
    with Cons.prems have "f b \<notin> f ` set xs" by simp
    then have "\<forall>y\<in>set xs. f y \<noteq> f b" by (metis imageI)
    from count_pairs_other[OF this] True show ?thesis by (simp add: pair)
  next
    case False
    with Cons.prems have "b \<in> set xs" "distinct (map f xs)" "f x \<noteq> f b" by auto
    with Cons.IH show ?thesis by (auto simp: count_list_0_iff)
  qed
qed

lemma ExampleScene_update_loop:
  "ExampleScene_update getPoint dt deltas pose now s =
     update_balls_loop pose now (length (balls s))
       (s\<lparr>physicsWorld := PhysicsWorld_update (physicsWorld s) dt,
          seagulls := map (\<lambda>(i, g). Seagull_update getPoint (deltas i) g)
                          (enumerate 0 (seagulls s))\<rparr>)"
  by (simp add: ExampleScene_update_def Let_def)

lemma ExampleScene_update_spec:
  fixes s getPoint dt deltas pose now
  defines "s' \<equiv> ExampleScene_update getPoint dt deltas pose now s"
  defines "dead \<equiv> {b \<in> set (balls s). \<not> snd (ball_after pose now b)}"
  shows "balls s' = map (\<lambda>b. fst (ball_after pose now b))
                        (filter (\<lambda>b. snd (ball_after pose now b)) (balls s))"
    and "distinct (children s) \<Longrightarrow> set (children s') = set (children s) - mesh ` dead"
    and "distinct (bodies (physicsWorld s)) \<Longrightarrow>
           set (bodies (physicsWorld s')) = set (bodies (physicsWorld s)) - body ` dead"
    and "world_bodies (physicsWorld s') = world_bodies (physicsWorld s) - body ` dead"
    and "released s' = released s @
           concat (map (\<lambda>b. map (Pair (mesh b)) (snd (Ball_dispose (fst (ball_after pose now b)))))
                       (rev (filter (\<lambda>b. \<not> snd (ball_after pose now b)) (balls s))))"
proof -
  let ?s2 = "s\<lparr>physicsWorld := PhysicsWorld_update (physicsWorld s) dt,
          seagulls := map (\<lambda>(i, g). Seagull_update getPoint (deltas i) g)
                          (enumerate 0 (seagulls s))\<rparr>"
  have s': "s' = update_balls_loop pose now (length (balls ?s2)) ?s2"
    by (simp add: s'_def ExampleScene_update_loop)
  have le: "length (balls ?s2) \<le> length (balls ?s2)" by simp
  from PhysicsWorld_update_spec[of "physicsWorld s" dt]
  have pw: "bodies (PhysicsWorld_update (physicsWorld s) dt) = bodies (physicsWorld s)"
           "world_bodies (PhysicsWorld_update (physicsWorld s) dt) = world_bodies (physicsWorld s)"
    by auto
  show "balls s' = map (\<lambda>b. fst (ball_after pose now b))
                        (filter (\<lambda>b. snd (ball_after pose now b)) (balls s))"
    unfolding s' by (subst loop_balls[OF le]) simp
  show "set (children s') = set (children s) - mesh ` dead" if "distinct (children s)"
    using loop_children[OF le, of pose now] that unfolding s' dead_def by simp
  show "set (bodies (physicsWorld s')) = set (bodies (physicsWorld s)) - body ` dead"
    if "distinct (bodies (physicsWorld s))"
    using loop_bodies[OF le, of pose now] that unfolding s' dead_def by (simp add: pw)
  show "released s' = released s @
           concat (map (\<lambda>b. map (Pair (mesh b)) (snd (Ball_dispose (fst (ball_after pose now b)))))
                       (rev (filter (\<lambda>b. \<not> snd (ball_after pose now b)) (balls s))))"
    unfolding s' by (subst loop_released[OF le]) simp
  show "world_bodies (physicsWorld s') = world_bodies (physicsWorld s) - body ` dead"
    using loop_world_bodies[OF le, of pose now] unfolding s' dead_def by (simp add: pw)
qed

text \<open>
  Claim C6.  A ball's creation time is the time of its construction.  A tracked
  ball that has not been disposed is reported alive by
  \<open>update()\<close> exactly when \<open>now - creationTime < 5000\<close>.  In the scene update a
  ball reported alive stays tracked and in the scene, and nothing of it is
  released.  A ball reported dead leaves the scene's children, the physics world's
  registry and the engine's body set, and the list of tracked balls; its geometry
  and its material are disposed once in that update, and no later scene update
  releases anything of it again.  (Meshes of tracked balls are pairwise different
  objects, and a scene's children and a registry hold an object at most once.)
\<close>

theorem C6_ball_lifetime:
  assumes b: "b \<in> set (balls s)" and nd: "\<not> disposed b"
    and dm: "distinct (map mesh (balls s))"
    and dc: "distinct (children s)"
    and db: "distinct (bodies (physicsWorld s))"
  shows "creationTime (Ball_new mesh_id body_id pos0 callback t0) = t0 \<and>
    snd (Ball_update b (pose (body b)) (now (mesh b)))
           = (now (mesh b) - creationTime b < 5000) \<and>
    (let s' = ExampleScene_update getPoint dt deltas pose now s in
      (now (mesh b) - creationTime b < 5000 \<longrightarrow>
         fst (Ball_update b (pose (body b)) (now (mesh b))) \<in> set (balls s') \<and>
         (mesh b \<in> set (children s) \<longrightarrow> mesh b \<in> set (children s')) \<and>
         (\<forall>e. count_list (released s') (mesh b, e) = count_list (released s) (mesh b, e))) \<and>
      (5000 \<le> now (mesh b) - creationTime b \<longrightarrow>
         mesh b \<notin> set (children s') \<and>
         body b \<notin> set (bodies (physicsWorld s')) \<and>
         body b \<notin> world_bodies (physicsWorld s') \<and>
         mesh b \<notin> mesh ` set (balls s') \<and>
         count_list (released s') (mesh b, DisposeGeometry)
           = count_list (released s) (mesh b, DisposeGeometry) + 1 \<and>
         count_list (released s') (mesh b, DisposeMaterial)
           = count_list (released s) (mesh b, DisposeMaterial) + 1 \<and>
         (\<forall>getPoint2 dt2 deltas2 pose2 now2 e.
            count_list (released (ExampleScene_update getPoint2 dt2 deltas2 pose2 now2 s'))
                       (mesh b, e)
              = count_list (released s') (mesh b, e))))"
proof -
  define s' where "s' = ExampleScene_update getPoint dt deltas pose now s"
  note spec = ExampleScene_update_spec[where s = s and getPoint = getPoint and dt = dt
      and deltas = deltas and pose = pose and now = now, folded s'_def]
  let ?alive = "\<lambda>x. snd (ball_after pose now x)"
  let ?sync = "\<lambda>x. fst (ball_after pose now x)"
  let ?fx = "\<lambda>x. snd (Ball_dispose (?sync x))"
  have alive: "?alive b = (now (mesh b) - creationTime b < 5000)"
    using nd by (simp add: ball_after_def Ball_update_alive)
  have inj: "\<And>x. x \<in> set (balls s) \<Longrightarrow> mesh x = mesh b \<Longrightarrow> x = b"
    using dm b by (meson distinct_map inj_on_def)
  have sync_mesh: "\<And>x. mesh (?sync x) = mesh x"
    by (simp add: ball_after_def Ball_update_ids)
  have rel: "\<And>e. count_list (released s') (mesh b, e) = count_list (released s) (mesh b, e)
       + count_list (concat (map (\<lambda>x. map (Pair (mesh x)) (?fx x))
            (rev (filter (\<lambda>x. \<not> ?alive x) (balls s))))) (mesh b, e)"
    by (simp add: spec(5))
  have live: "?sync b \<in> set (balls s') \<and>
         (mesh b \<in> set (children s) \<longrightarrow> mesh b \<in> set (children s')) \<and>
         (\<forall>e. count_list (released s') (mesh b, e) = count_list (released s) (mesh b, e))"
    if a: "?alive b"
  proof (intro conjI impI allI)
    show "?sync b \<in> set (balls s')" using a b by (simp add: spec(1))
    show "mesh b \<in> set (children s')" if "mesh b \<in> set (children s)"
      using that a inj by (auto simp: spec(2)[OF dc])
    fix e
    have "\<forall>x\<in>set (rev (filter (\<lambda>x. \<not> ?alive x) (balls s))). mesh x \<noteq> mesh b"
      using a inj by auto
    from count_pairs_other[OF this] show
      "count_list (released s') (mesh b, e) = count_list (released s) (mesh b, e)"
      by (simp add: rel)
  qed
  have gone: "mesh b \<notin> mesh ` set (balls s')" if d: "\<not> ?alive b"
    using d inj by (auto simp: spec(1) sync_mesh)
  have dead: "mesh b \<notin> set (children s') \<and>
         body b \<notin> set (bodies (physicsWorld s')) \<and>
         body b \<notin> world_bodies (physicsWorld s') \<and>
         count_list (released s') (mesh b, DisposeGeometry)
           = count_list (released s) (mesh b, DisposeGeometry) + 1 \<and>
         count_list (released s') (mesh b, DisposeMaterial)
           = count_list (released s) (mesh b, DisposeMaterial) + 1"
    if d: "\<not> ?alive b"
  proof -
    have mem: "b \<in> set (rev (filter (\<lambda>x. \<not> ?alive x) (balls s)))"
      using d b by simp
    have dist: "distinct (map mesh (rev (filter (\<lambda>x. \<not> ?alive x) (balls s))))"
      using dm by (simp add: distinct_map_filter rev_map[symmetric])
    have cnt: "\<And>e. count_list (released s') (mesh b, e)
                 = count_list (released s) (mesh b, e) + count_list (?fx b) e"
      using count_pairs_one[OF mem dist, of ?fx] by (simp add: rel)
    from Ball_dispose_effects[OF nd, of "pose (body b)" "now (mesh b)"]
    have "count_list (?fx b) DisposeGeometry = 1" "count_list (?fx b) DisposeMaterial = 1"
      by (simp_all add: ball_after_def)
    with cnt d b show ?thesis
      by (auto simp: spec(2)[OF dc] spec(3)[OF db] spec(4))
  qed
  have later: "count_list (released (ExampleScene_update getPoint2 dt2 deltas2 pose2 now2 s'))
                       (mesh b, e)
              = count_list (released s') (mesh b, e)"
    if d: "\<not> ?alive b" for getPoint2 dt2 deltas2 and pose2 :: "nat \<Rightarrow> vec3 \<times> quat" and now2 e
  proof -
    have "\<forall>x\<in>set (balls s'). mesh x \<noteq> mesh b"
      using gone[OF d] by (metis imageI)
    then have "\<forall>x\<in>set (rev (filter (\<lambda>x. \<not> snd (ball_after pose2 now2 x)) (balls s'))).
            mesh x \<noteq> mesh b"
      by simp
    from count_pairs_other[OF this] show ?thesis
      by (simp add: ExampleScene_update_spec(5))
  qed
  from alive live dead gone later show ?thesis
    unfolding Let_def s'_def[symmetric]
    by (simp add: ball_after_def Ball_update_alive[OF nd] not_less Ball_new_def)
qed

lemma example_balls_scene_fields:
  "balls example_balls_scene =
     [Ball_new 10 20 (Vec3 0 2 0) True 1000, Ball_new 11 21 (Vec3 0 2 0) True 4000]"
  "children example_balls_scene = [10, 11]"
  "bodies (physicsWorld example_balls_scene) = [0, 20, 21]"
  "released example_balls_scene = []"
  by (simp_all add: example_balls_scene_def throwBall_def ExampleScene_new_def
        initSeagulls_def PhysicsWorld_new_def PhysicsWorld_addBody_def Let_def
        case_prod_beta Ball_new_def)

theorem C6_ball_lifetime_witness:
  "snd (Ball_update (Ball_new 10 20 (Vec3 0 2 0) True 1000) (Vec3 1 1 1, Quat 0 0 0 1) 5999) \<and>
   \<not> snd (Ball_update (Ball_new 10 20 (Vec3 0 2 0) True 1000) (Vec3 1 1 1, Quat 0 0 0 1) 6000) \<and>
   10 \<notin> set (children (ExampleScene_update (\<lambda>c t. Vec3 0 0 0) 16 (\<lambda>i. 0)
                 (\<lambda>i. (Vec3 1 1 1, Quat 0 0 0 1)) (\<lambda>m. 6000) example_balls_scene)) \<and>
   20 \<notin> set (bodies (physicsWorld (ExampleScene_update (\<lambda>c t. Vec3 0 0 0) 16 (\<lambda>i. 0)
                 (\<lambda>i. (Vec3 1 1 1, Quat 0 0 0 1)) (\<lambda>m. 6000) example_balls_scene))) \<and>
   count_list (released (ExampleScene_update (\<lambda>c t. Vec3 0 0 0) 16 (\<lambda>i. 0)
                 (\<lambda>i. (Vec3 1 1 1, Quat 0 0 0 1)) (\<lambda>m. 6000) example_balls_scene))
              (10, DisposeGeometry) = 1 \<and>
   11 \<in> set (children (ExampleScene_update (\<lambda>c t. Vec3 0 0 0) 16 (\<lambda>i. 0)
                 (\<lambda>i. (Vec3 1 1 1, Quat 0 0 0 1)) (\<lambda>m. 6000) example_balls_scene)) \<and>
   count_list (released (ExampleScene_update (\<lambda>c t. Vec3 0 0 0) 16 (\<lambda>i. 0)
                 (\<lambda>i. (Vec3 1 1 1, Quat 0 0 0 1)) (\<lambda>m. 6000) example_balls_scene))
              (11, DisposeGeometry) = 0"
proof -
  let ?b1 = "Ball_new 10 20 (Vec3 0 2 0) True 1000"
  let ?b2 = "Ball_new 11 21 (Vec3 0 2 0) True 4000"
  let ?pose = "\<lambda>i::nat. (Vec3 1 1 1, Quat 0 0 0 1)"
  have h1: "?b1 \<in> set (balls example_balls_scene)" "\<not> disposed ?b1"
    and h2: "?b2 \<in> set (balls example_balls_scene)" "\<not> disposed ?b2"
    and h3: "distinct (map mesh (balls example_balls_scene))"
      "distinct (children example_balls_scene)"
      "distinct (bodies (physicsWorld example_balls_scene))"
    by (simp_all add: example_balls_scene_fields Ball_new_def)
  note dead = C6_ball_lifetime[OF h1 h3, where pose = ?pose and now = "\<lambda>m. 6000"
      and getPoint = "\<lambda>c t. Vec3 0 0 0" and dt = 16 and deltas = "\<lambda>i. 0"]
  note early = C6_ball_lifetime[OF h1 h3, where pose = ?pose and now = "\<lambda>m. 5999"
      and getPoint = "\<lambda>c t. Vec3 0 0 0" and dt = 16 and deltas = "\<lambda>i. 0"]
  note live = C6_ball_lifetime[OF h2 h3, where pose = ?pose and now = "\<lambda>m. 6000"
      and getPoint = "\<lambda>c t. Vec3 0 0 0" and dt = 16 and deltas = "\<lambda>i. 0"]
  have c1: "creationTime ?b1 = 1000" "mesh ?b1 = 10" "body ?b1 = 20"
    and c2: "creationTime ?b2 = 4000" "mesh ?b2 = 11" "body ?b2 = 21"
    by (simp_all add: Ball_new_def)
  note r0 = example_balls_scene_fields(4) example_balls_scene_fields(2)
  from dead early live show ?thesis
    unfolding Let_def c1 c2 r0 by simp
qed

section \<open>Properties of Seagull\<close>

lemma Seagull_hit_again: "isHit g \<Longrightarrow> Seagull_hit g = (g, [])"
  by (simp add: Seagull_hit_def)

lemma Seagull_hit_isHit: "isHit (fst (Seagull_hit g))"
  by (simp add: Seagull_hit_def Seagull_dispose_def Let_def case_prod_beta
           split: option.splits)

lemma Seagull_hit_counts:
  "count_list (snd (Seagull_hit g)) CallOnHit = (if \<not> isHit g \<and> onHitCallback g then 1 else 0) \<and>
   count_list (snd (Seagull_hit g)) SceneRemove =
     (if \<not> isHit g \<and> (\<exists>m. model g = Some m \<and> parent m) then 1 else 0) \<and>
   count_list (snd (Seagull_hit g)) DisposeMeshes =
     (if \<not> isHit g \<and> model g \<noteq> None then 1 else 0)"
  by (auto simp: Seagull_hit_def Seagull_dispose_def Let_def case_prod_beta
           split: option.splits)

lemma Seagull_hit_times_again: "isHit g \<Longrightarrow> Seagull_hit_times n g = (g, [])"
  by (induction n) (simp_all add: Seagull_hit_again)

lemma Seagull_hit_times_first:
  assumes "0 < n"
  shows "Seagull_hit_times n g = Seagull_hit g"
proof -
  from assms obtain k where n: "n = Suc k" by (cases n) auto
  have "Seagull_hit_times k (fst (Seagull_hit g)) = (fst (Seagull_hit g), [])"
    by (rule Seagull_hit_times_again) (rule Seagull_hit_isHit)
  then show ?thesis unfolding n by (simp add: case_prod_beta)
qed

text \<open>No other operation of a seagull clears \<open>isHit\<close>.\<close>

lemma isHit_stable:
  "isHit (Seagull_update getPoint delta g) = isHit g"
  "isHit (fst (Seagull_setBounds g mn mx rnd k)) = isHit g"
  "isHit (Seagull_modelLoaded animations g) = isHit g"
  "isHit (fst (Seagull_dispose g)) = isHit g"
  by (simp_all add: Seagull_update_def Seagull_setBounds_def Seagull_modelLoaded_def
        Seagull_dispose_def Let_def case_prod_beta split: option.splits)

text \<open>
  Claim C1.  \<open>hit()\<close> on a seagull that is already hit changes nothing and calls
  nothing; after any \<open>hit()\<close> the seagull is hit; any positive number of \<open>hit()\<close>
  calls in a row does exactly what the first one does.  Hence, over any number of
  calls, the callback runs at most once (exactly once for a seagull that was not
  hit and has a callback), the model is removed from the scene at most once and
  its resources are released at most once.
\<close>

theorem C1_hit_takes_effect_once:
  "(isHit g \<longrightarrow> Seagull_hit g = (g, [])) \<and>
   isHit (fst (Seagull_hit g)) \<and>
   (0 < n \<longrightarrow> Seagull_hit_times n g = Seagull_hit g) \<and>
   (\<not> isHit g \<longrightarrow>
      count_list (snd (Seagull_hit g)) CallOnHit = (if onHitCallback g then 1 else 0)) \<and>
   count_list (snd (Seagull_hit_times n g)) CallOnHit \<le> 1 \<and>
   count_list (snd (Seagull_hit_times n g)) SceneRemove \<le> 1 \<and>
   count_list (snd (Seagull_hit_times n g)) DisposeMeshes \<le> 1"
proof -
  have "count_list (snd (Seagull_hit_times n g)) e \<le> count_list (snd (Seagull_hit g)) e" for e
    by (cases "0 < n") (simp_all add: Seagull_hit_times_first)
  moreover have "count_list (snd (Seagull_hit g)) CallOnHit \<le> 1"
    "count_list (snd (Seagull_hit g)) SceneRemove \<le> 1"
    "count_list (snd (Seagull_hit g)) DisposeMeshes \<le> 1"
    using Seagull_hit_counts[of g] by (simp_all split: if_splits)
  ultimately have "count_list (snd (Seagull_hit_times n g)) CallOnHit \<le> 1"
    "count_list (snd (Seagull_hit_times n g)) SceneRemove \<le> 1"
    "count_list (snd (Seagull_hit_times n g)) DisposeMeshes \<le> 1"
    using le_trans by blast+
  then show ?thesis
    using Seagull_hit_counts[of g]
    by (simp add: Seagull_hit_again Seagull_hit_isHit Seagull_hit_times_first)
qed

lemma example_seagull_fields:
  "model example_seagull = Some \<lparr>position = Vec3 0 0 0, rotation = Vec3 0 0 0,
                                  scale = Vec3 2 2 2, parent = True\<rparr>"
  "mixer example_seagull = None" "progress example_seagull = 0"
  "speed example_seagull = 1 / 25" "modelLoaded example_seagull"
  "\<not> isHit example_seagull" "onHitCallback example_seagull"
  by (simp_all add: example_seagull_def Seagull_new_def createFallbackModel_def
        createRandomPath_def constant_random_def Let_def case_prod_beta)

lemma example_seagull_hit:
  "Seagull_hit example_seagull =
     (example_seagull\<lparr>isHit := True,
        model := Some \<lparr>position = Vec3 0 0 0, rotation = Vec3 0 0 0,
                        scale = Vec3 2 2 2, parent = False\<rparr>\<rparr>,
      [CallOnHit, SceneRemove, DisposeMeshes])"
  by (simp add: Seagull_hit_def Seagull_dispose_def example_seagull_fields Let_def)

theorem C1_hit_takes_effect_once_witness:
  "\<not> isHit example_seagull \<and>
   snd (Seagull_hit_times 3 example_seagull) = [CallOnHit, SceneRemove, DisposeMeshes] \<and>
   isHit (fst (Seagull_hit_times 3 example_seagull)) \<and>
   Seagull_hit (fst (Seagull_hit example_seagull)) = (fst (Seagull_hit example_seagull), [])"
  using C1_hit_takes_effect_once[of example_seagull 3]
    C1_hit_takes_effect_once[of "fst (Seagull_hit example_seagull)" 0]
  by (simp add: example_seagull_fields example_seagull_hit)

lemma Vector3_length_zero_iff: "Vector3_length d = 0 \<longleftrightarrow> d = Vec3 0 0 0"
proof (cases d)
  case (Vec3 x y z)
  have "x * x + y * y + z * z = 0 \<longleftrightarrow> x = 0 \<and> y = 0 \<and> z = 0"
    using sum_squares_eq_zero_iff[of x y] sum_power2_eq_zero_iff[of "x" "y"]
    by (smt (verit) mult_eq_0_iff zero_le_square)
  then show ?thesis using Vec3
    by (simp add: Vector3_length_def)
qed

lemma Vector3_normalize_unit:
  assumes "d \<noteq> Vec3 0 0 0"
  shows "Vector3_length (Vector3_normalize d) = 1"
proof -
  define l where "l = Vector3_length d"
  define q where "q = vx d * vx d + vy d * vy d + vz d * vz d"
  have q0: "0 \<le> q" by (simp add: q_def)
  have l: "l = sqrt q" by (simp add: l_def q_def Vector3_length_def)
  have lnz: "l \<noteq> 0" using assms by (simp add: l_def Vector3_length_zero_iff)
  have ll: "l * l = q" using q0 by (simp add: l)
  have nrm: "Vector3_normalize d = Vec3 (vx d / l) (vy d / l) (vz d / l)"
    using lnz by (simp add: Vector3_normalize_def l_def Let_def)
  have sq: "(vx d / l) * (vx d / l) + (vy d / l) * (vy d / l) + (vz d / l) * (vz d / l)
          = q / (l * l)"
    by (simp add: q_def add_divide_distrib)
  have one: "q / (l * l) = 1" using lnz unfolding ll[symmetric] by simp
  have "Vector3_length (Vec3 (vx d / l) (vy d / l) (vz d / l)) = sqrt (q / (l * l))"
    unfolding Vector3_length_def vec3.sel sq ..
  then show ?thesis unfolding nrm one by simp
qed

lemma Vector3_normalize_zero: "Vector3_normalize (Vec3 0 0 0) = Vec3 0 0 0"
  by (simp add: Vector3_normalize_def Vector3_length_def)

text \<open>
  Claim C2 says that after \<open>hit()\<close> every \<open>update()\<close> is a no-op.  The code of
  \<open>update()\<close> never reads \<open>isHit\<close>.  For the example seagull, once hit, the model
  is detached from the scene, yet an \<open>update()\<close> with a clock delta of half a second
  advances the path progress from 0 to 1/50 and moves the model to the path's
  sample there, whatever the spline sampler is.
\<close>

theorem C2_update_after_hit_still_applies:
  "isHit (fst (Seagull_hit example_seagull)) \<and>
   map_option parent (model (fst (Seagull_hit example_seagull))) = Some False \<and>
   progress (fst (Seagull_hit example_seagull)) = 0 \<and>
   map_option position (model (fst (Seagull_hit example_seagull))) = Some (Vec3 0 0 0) \<and>
   progress (Seagull_update getPoint (1 / 2) (fst (Seagull_hit example_seagull))) = 1 / 50 \<and>
   map_option position
       (model (Seagull_update getPoint (1 / 2) (fst (Seagull_hit example_seagull))))
     = Some (getPoint (path example_seagull) (1 / 50))"
  by (simp add: example_seagull_hit example_seagull_fields Seagull_update_def Let_def)

lemma example_displacement:
  "Vector3_sub (example_getPoint c (rem1 (7 / 100))) (example_getPoint c (1 / 50))
     = Vec3 (1 / 2000) 0 0"
  by (simp add: example_getPoint_def rem1_def Vector3_sub_def)

lemma length_x_axis: "Vector3_length (Vec3 a 0 0) = \<bar>a\<bar>"
  by (simp add: Vector3_length_def)

lemma normalize_x_axis: "0 < a \<Longrightarrow> Vector3_normalize (Vec3 a 0 0) = Vec3 1 0 0"
  by (simp add: Vector3_normalize_def length_x_axis)

text \<open>
  What \<open>update()\<close> does to the rotation of a loaded model, over the reals: the
  normalised displacement has length 0 if the displacement is zero and length 1
  otherwise, so the test against 0.001 lets every non-zero displacement through.
\<close>

lemma Seagull_update_rotation:
  assumes "model g = Some m" and "modelLoaded g"
  shows
    "(let advanced = progress g + speed g * delta;
          p = (if advanced > 1 then advanced - 1 else advanced);
          d = Vector3_sub (getPoint (path g) (rem1 (p + 0.05))) (getPoint (path g) p);
          direction = Vector3_normalize d
      in Vector3_length direction = (if d = Vec3 0 0 0 then 0 else 1) \<and>
         map_option rotation (model (Seagull_update getPoint delta g)) =
           Some (if d = Vec3 0 0 0 then rotation m
                 else Vec3 (vy direction * 0.5)
                           (atan2 (vx direction) (vz direction))
                           (vx direction * (- 0.3))))"
proof -
  define p where "p = (if progress g + speed g * delta > 1
                       then progress g + speed g * delta - 1
                       else progress g + speed g * delta)"
  define d where "d = Vector3_sub (getPoint (path g) (rem1 (p + 0.05))) (getPoint (path g) p)"
  have len: "Vector3_length (Vector3_normalize d) = (if d = Vec3 0 0 0 then 0 else 1)"
    by (simp add: Vector3_normalize_zero Vector3_normalize_unit)
       (simp add: Vector3_length_def)
  have rot: "map_option rotation (model (Seagull_update getPoint delta g)) =
           Some (if d = Vec3 0 0 0 then rotation m
                 else Vec3 (vy (Vector3_normalize d) * 0.5)
                           (atan2 (vx (Vector3_normalize d)) (vz (Vector3_normalize d)))
                           (vx (Vector3_normalize d) * (- 0.3)))"
    using assms len unfolding d_def p_def
    by (simp add: Seagull_update_def Let_def split: if_splits)
  from len rot show ?thesis
    unfolding Let_def d_def p_def by simp
qed

lemma Seagull_update_rotation_at_rest:
  "map_option rotation (model example_seagull) = Some (Vec3 0 0 0) \<and>
   map_option position (model (Seagull_update resting_getPoint (1 / 2) example_seagull))
     = Some (Vec3 0 20 0) \<and>
   map_option rotation (model (Seagull_update resting_getPoint (1 / 2) example_seagull))
     = Some (Vec3 0 0 0)"
proof -
  have pos: "map_option position (model (Seagull_update resting_getPoint (1 / 2) example_seagull))
     = Some (Vec3 0 20 0)"
    by (simp add: Seagull_update_def Let_def example_seagull_fields resting_getPoint_def)
  from Seagull_update_rotation
         [OF example_seagull_fields(1) example_seagull_fields(5),
          of "1 / 2" resting_getPoint]
  show ?thesis
    by (simp add: pos Let_def example_seagull_fields resting_getPoint_def Vector3_sub_def)
qed

text \<open>
  Claim C9: whenever the displacement between the current sample and the
  look-ahead sample is below a small epsilon, the orientation update is skipped
  and the rotation is left unchanged that tick.  The code writes the epsilon,
  0.001, but compares it with the length of the displacement after
  \<open>normalize()\<close>, which is 1 for every displacement other than zero.  For the
  example seagull and the example sampler the displacement has length 1/2000,
  below 0.001, and \<open>update()\<close> does not skip: it turns the model from rotation
  (0, 0, 0) to (0, pi/2, -3/10).
\<close>

theorem C9_tiny_displacement_still_turns:
  "Vector3_length
      (Vector3_sub (example_getPoint (path example_seagull) (rem1 (1 / 50 + 0.05)))
                   (example_getPoint (path example_seagull) (1 / 50))) = 1 / 2000 \<and>
   progress (Seagull_update example_getPoint (1 / 2) example_seagull) = 1 / 50 \<and>
   map_option rotation (model example_seagull) = Some (Vec3 0 0 0) \<and>
   map_option rotation (model (Seagull_update example_getPoint (1 / 2) example_seagull))
     = Some (Vec3 0 (pi / 2) (- (3 / 10)))"
proof -
  have len: "Vector3_length (Vec3 (1 / 2000) 0 0) = 1 / 2000"
    by (simp add: length_x_axis)
  have nrm: "Vector3_normalize (Vec3 (1 / 2000) 0 0) = Vec3 1 0 0"
    by (rule normalize_x_axis) simp
  have rot: "map_option rotation (model (Seagull_update example_getPoint (1 / 2) example_seagull))
     = Some (Vec3 0 (pi / 2) (- (3 / 10)))"
    by (simp add: Seagull_update_def Let_def example_seagull_fields example_getPoint_def
          rem1_def Vector3_sub_def normalize_x_axis length_x_axis atan2_def)
  have prog: "progress (Seagull_update example_getPoint (1 / 2) example_seagull) = 1 / 50"
    by (simp add: Seagull_update_def example_seagull_fields Let_def)
  show ?thesis
    by (simp add: example_displacement len rot prog example_seagull_fields)
qed

section \<open>Properties of the flight path\<close>

lemma path_points_length: "length (path_points b rnd k n) = n"
  by (induction n arbitrary: k) simp_all

lemma path_points_all:
  "(\<And>j. P (random_point b rnd j)) \<Longrightarrow> list_all P (path_points b rnd k n)"
  by (induction n arbitrary: k) simp_all

lemma numPoints_range:
  fixes r :: real
  assumes "0 \<le> r" "r < 1"
  shows "5 \<le> 5 + nat \<lfloor>r * 3\<rfloor> \<and> 5 + nat \<lfloor>r * 3\<rfloor> \<le> 7"
proof -
  have "r * 3 < 3" using assms by simp
  then have "\<lfloor>r * 3\<rfloor> < 3" by (simp add: floor_less_iff)
  then have "nat \<lfloor>r * 3\<rfloor> \<le> 2" by linarith
  then show ?thesis by linarith
qed

lemma random_point_range:
  assumes rnd: "\<forall>i. 0 \<le> rnd i \<and> rnd i < 1"
    and x: "vx (box_min b) \<le> vx (box_max b)" and z: "vz (box_min b) \<le> vz (box_max b)"
  shows "vx (box_min b) \<le> vx (random_point b rnd j) \<and>
         vx (random_point b rnd j) \<le> vx (box_max b) \<and>
         vy (box_min b) + 5 \<le> vy (random_point b rnd j) \<and>
         vy (random_point b rnd j) < vy (box_min b) + 20 \<and>
         vz (box_min b) \<le> vz (random_point b rnd j) \<and>
         vz (random_point b rnd j) \<le> vz (box_max b)"
proof -
  have scale: "0 \<le> r * w \<and> r * w \<le> w" if "0 \<le> r" "r < 1" "0 \<le> w" for r w :: real
    using that by (simp add: mult_left_le_one_le)
  from rnd have r0: "0 \<le> rnd j" "rnd j < 1" and r1: "0 \<le> rnd (j + 1)" "rnd (j + 1) < 1"
    and r2: "0 \<le> rnd (j + 2)" "rnd (j + 2) < 1"
    by simp_all
  from scale[OF r0, of "vx (box_max b) - vx (box_min b)"] x
  have "0 \<le> rnd j * (vx (box_max b) - vx (box_min b))"
       "rnd j * (vx (box_max b) - vx (box_min b)) \<le> vx (box_max b) - vx (box_min b)"
    by simp_all
  moreover from scale[OF r2, of "vz (box_max b) - vz (box_min b)"] z
  have "0 \<le> rnd (j + 2) * (vz (box_max b) - vz (box_min b))"
       "rnd (j + 2) * (vz (box_max b) - vz (box_min b)) \<le> vz (box_max b) - vz (box_min b)"
    by simp_all
  moreover from r1 have "0 \<le> rnd (j + 1) * 15" "rnd (j + 1) * 15 < 15" by simp_all
  ultimately show ?thesis
    unfolding random_point_def vec3.sel by linarith
qed

lemma createRandomPath_spec:
  assumes rnd: "\<forall>i. 0 \<le> rnd i \<and> rnd i < 1"
    and x: "vx (box_min b) \<le> vx (box_max b)" and z: "vz (box_min b) \<le> vz (box_max b)"
  shows "5 \<le> length (points (fst (createRandomPath b rnd k))) \<and>
         length (points (fst (createRandomPath b rnd k))) \<le> 7 \<and>
         curve_closed (fst (createRandomPath b rnd k)) \<and>
         list_all (\<lambda>p. vx (box_min b) \<le> vx p \<and> vx p \<le> vx (box_max b) \<and>
                       vy (box_min b) + 5 \<le> vy p \<and> vy p < vy (box_min b) + 20 \<and>
                       vz (box_min b) \<le> vz p \<and> vz p \<le> vz (box_max b))
                  (points (fst (createRandomPath b rnd k)))"
proof -
  from rnd have "0 \<le> rnd k" "rnd k < 1" by simp_all
  from numPoints_range[OF this] random_point_range[OF rnd x z]
  show ?thesis
    by (simp add: createRandomPath_def Let_def path_points_length path_points_all)
qed

text \<open>
  Claim C8, amended.  With random numbers in \<open>[0, 1)\<close>, a path created by the
  constructor has 5 to 7 control points, is closed, and has all control points
  within the default bounds.  A path created by \<open>setBounds(min, max)\<close> with
  \<open>min \<le> max\<close> in x and z has 5 to 7 control points, is closed, and each control
  point has x and z within the bounds and y in \<open>[min.y + 5, min.y + 20)\<close>; so all
  control points lie within the bounds when \<open>min.y + 20 \<le> max.y\<close>, as for the
  bounds the scene sets.  Samples of the spline between control points are
  three.js's and are not covered.
\<close>

theorem C8_control_points:
  assumes rnd: "\<forall>i. 0 \<le> rnd i \<and> rnd i < 1"
    and x: "vx mn \<le> vx mx" and z: "vz mn \<le> vz mx"
  shows
   "bounds (fst (Seagull_new cb rnd k)) = default_bounds \<and>
    5 \<le> length (points (path (fst (Seagull_new cb rnd k)))) \<and>
    length (points (path (fst (Seagull_new cb rnd k)))) \<le> 7 \<and>
    curve_closed (path (fst (Seagull_new cb rnd k))) \<and>
    list_all (in_box default_bounds) (points (path (fst (Seagull_new cb rnd k)))) \<and>
    bounds (fst (Seagull_setBounds g mn mx rnd k)) = \<lparr>box_min = mn, box_max = mx\<rparr> \<and>
    5 \<le> length (points (path (fst (Seagull_setBounds g mn mx rnd k)))) \<and>
    length (points (path (fst (Seagull_setBounds g mn mx rnd k)))) \<le> 7 \<and>
    curve_closed (path (fst (Seagull_setBounds g mn mx rnd k))) \<and>
    list_all (\<lambda>p. vx mn \<le> vx p \<and> vx p \<le> vx mx \<and>
                  vy mn + 5 \<le> vy p \<and> vy p < vy mn + 20 \<and>
                  vz mn \<le> vz p \<and> vz p \<le> vz mx)
             (points (path (fst (Seagull_setBounds g mn mx rnd k)))) \<and>
    (vy mn + 20 \<le> vy mx \<longrightarrow>
       list_all (in_box \<lparr>box_min = mn, box_max = mx\<rparr>)
                (points (path (fst (Seagull_setBounds g mn mx rnd k)))))"
proof -
  have pn: "path (fst (Seagull_new cb rnd k)) = fst (createRandomPath default_bounds rnd k)"
    and bn: "bounds (fst (Seagull_new cb rnd k)) = default_bounds"
    by (simp_all add: Seagull_new_def createFallbackModel_def case_prod_beta)
  have ps: "path (fst (Seagull_setBounds g mn mx rnd k))
              = fst (createRandomPath \<lparr>box_min = mn, box_max = mx\<rparr> rnd k)"
    and bs: "bounds (fst (Seagull_setBounds g mn mx rnd k)) = \<lparr>box_min = mn, box_max = mx\<rparr>"
    by (simp_all add: Seagull_setBounds_def Let_def case_prod_beta)
  have d: "vx (box_min default_bounds) \<le> vx (box_max default_bounds)"
          "vz (box_min default_bounds) \<le> vz (box_max default_bounds)"
    by (simp_all add: default_bounds_def)
  note A = createRandomPath_spec[OF rnd d, of k]
  have x': "vx (box_min \<lparr>box_min = mn, box_max = mx\<rparr>) \<le> vx (box_max \<lparr>box_min = mn, box_max = mx\<rparr>)"
    and z': "vz (box_min \<lparr>box_min = mn, box_max = mx\<rparr>) \<le> vz (box_max \<lparr>box_min = mn, box_max = mx\<rparr>)"
    using x z by simp_all
  note B = createRandomPath_spec[OF rnd x' z', of k]
  have A_box: "list_all (in_box default_bounds) (points (fst (createRandomPath default_bounds rnd k)))"
    using A by (auto simp: list_all_iff in_box_def default_bounds_def)
  have B_box: "list_all (in_box \<lparr>box_min = mn, box_max = mx\<rparr>)
                (points (fst (createRandomPath \<lparr>box_min = mn, box_max = mx\<rparr> rnd k)))"
    if "vy mn + 20 \<le> vy mx"
    using B that by (auto simp: list_all_iff in_box_def)
  from A A_box B B_box show ?thesis
    unfolding pn bn ps bs by simp
qed

text \<open>
  Claim C8 as stated: every control point of every path lies within the current
  bounds.  The height of a control point is \<open>min.y + 5 + random * 15\<close> and does
  not depend on \<open>max.y\<close>.  After \<open>setBounds((0,0,0), (10,10,10))\<close> with random
  numbers 0.9 the path has 7 control points, the first of them (9, 18.5, 9), above
  the box.
\<close>

theorem C8_control_point_outside_bounds_counterexample:
  "bounds (fst (Seagull_setBounds example_seagull (Vec3 0 0 0) (Vec3 10 10 10)
                  (constant_random (9 / 10)) 0))
     = \<lparr>box_min = Vec3 0 0 0, box_max = Vec3 10 10 10\<rparr> \<and>
   length (points (path (fst (Seagull_setBounds example_seagull (Vec3 0 0 0) (Vec3 10 10 10)
                  (constant_random (9 / 10)) 0)))) = 7 \<and>
   hd (points (path (fst (Seagull_setBounds example_seagull (Vec3 0 0 0) (Vec3 10 10 10)
                  (constant_random (9 / 10)) 0))))
     = Vec3 9 (37 / 2) 9 \<and>
   \<not> in_box \<lparr>box_min = Vec3 0 0 0, box_max = Vec3 10 10 10\<rparr> (Vec3 9 (37 / 2) 9)"
  by (simp add: Seagull_setBounds_def createRandomPath_def Let_def constant_random_def
        random_point_def in_box_def eval_nat_numeral)

theorem C8_control_points_witness:
  "5 \<le> length (points (path (fst (Seagull_setBounds example_seagull
             (Vec3 (-50) 15 (-50)) (Vec3 50 35 50) (constant_random (1 / 2)) 0)))) \<and>
   length (points (path (fst (Seagull_setBounds example_seagull
             (Vec3 (-50) 15 (-50)) (Vec3 50 35 50) (constant_random (1 / 2)) 0)))) \<le> 7 \<and>
   list_all (in_box \<lparr>box_min = Vec3 (-50) 15 (-50), box_max = Vec3 50 35 50\<rparr>)
      (points (path (fst (Seagull_setBounds example_seagull
             (Vec3 (-50) 15 (-50)) (Vec3 50 35 50) (constant_random (1 / 2)) 0)))) \<and>
   list_all (in_box default_bounds)
      (points (path (fst (Seagull_new True (constant_random (1 / 2)) 0))))"
proof -
  have rnd: "\<forall>i. 0 \<le> constant_random (1 / 2) i \<and> constant_random (1 / 2) i < 1"
    by (simp add: constant_random_def)
  have x: "vx (Vec3 (-50) 15 (-50)) \<le> vx (Vec3 50 35 50)"
    and z: "vz (Vec3 (-50) 15 (-50)) \<le> vz (Vec3 50 35 50)"
    by simp_all
  from C8_control_points[OF rnd x z, of True 0 example_seagull]
  show ?thesis by simp
qed

section \<open>Properties of the win condition\<close>

lemma Seagull_hit_fresh:
  "\<not> isHit g \<Longrightarrow> onHitCallback g \<Longrightarrow>
   CallOnHit \<in> set (snd (Seagull_hit g)) \<and> onHitCallback (fst (Seagull_hit g))"
  by (simp add: Seagull_hit_def Seagull_dispose_def Let_def case_prod_beta
           split: option.splits)

lemma create_seagulls_spec:
  "length (fst (create_seagulls n rnd k)) = n \<and>
   (\<forall>g\<in>set (fst (create_seagulls n rnd k)). onHitCallback g \<and> \<not> isHit g)"
  by (induction n arbitrary: k)
     (simp_all add: case_prod_beta Seagull_new_def Seagull_setBounds_def
        createFallbackModel_def Let_def)

lemma initSeagulls_round:
  "round_state (winSignals s) {} (fst (initSeagulls (s\<lparr>seagulls := []\<rparr>) rnd k))"
  using create_seagulls_spec[of NUM_SEAGULLS rnd k]
  by (simp add: round_state_def initSeagulls_def case_prod_beta NUM_SEAGULLS_def
        lessThan_empty_iff)

lemma card_hits:
  assumes "i < n" "i \<notin> H"
  shows "card (insert i H \<inter> {..<n}) = Suc (card (H \<inter> {..<n}))"
    and "card (insert i H \<inter> {..<n}) \<le> n"
    and "(n \<le> card (insert i H \<inter> {..<n})) = ({..<n} \<subseteq> insert i H)"
    and "\<not> {..<n} \<subseteq> H"
proof -
  have eq: "insert i H \<inter> {..<n} = insert i (H \<inter> {..<n})" using assms by auto
  show "card (insert i H \<inter> {..<n}) = Suc (card (H \<inter> {..<n}))"
    unfolding eq using assms by simp
  have le: "card (insert i H \<inter> {..<n}) \<le> card {..<n}"
    by (rule card_mono) auto
  then show "card (insert i H \<inter> {..<n}) \<le> n" by simp
  show "(n \<le> card (insert i H \<inter> {..<n})) = ({..<n} \<subseteq> insert i H)"
  proof
    assume "n \<le> card (insert i H \<inter> {..<n})"
    with le have "card (insert i H \<inter> {..<n}) = card {..<n}" by simp
    then have "insert i H \<inter> {..<n} = {..<n}"
      by (intro card_subset_eq) auto
    then show "{..<n} \<subseteq> insert i H" by blast
  next
    assume "{..<n} \<subseteq> insert i H"
    then have "insert i H \<inter> {..<n} = {..<n}" by blast
    then show "n \<le> card (insert i H \<inter> {..<n})" by simp
  qed
  show "\<not> {..<n} \<subseteq> H" using assms by auto
qed

lemma Scene_hit_seagull_round:
  assumes inv: "round_state w0 H s"
  shows "round_state w0 (insert i H) (Scene_hit_seagull i s)"
proof -
  from inv have len: "length (seagulls s) = 5"
    and each: "\<And>j. j < 5 \<Longrightarrow> onHitCallback (seagulls s ! j) \<and> isHit (seagulls s ! j) = (j \<in> H)"
    and rem: "remainingSeagulls s = 5 - int (card (H \<inter> {..<5}))"
    and scr: "winScreen s = Some ({..<5} \<subseteq> H)"
    and sig: "winSignals s = w0 + (if {..<5} \<subseteq> H then 1 else 0)"
    by (simp_all add: round_state_def NUM_SEAGULLS_def)
  consider (out) "5 \<le> i" | (again) "i < 5" "i \<in> H" | (fresh) "i < 5" "i \<notin> H"
    by linarith
  then show ?thesis
  proof cases
    case out
    then have same: "Scene_hit_seagull i s = s" by (simp add: Scene_hit_seagull_def len)
    have "insert i H \<inter> {..<5} = H \<inter> {..<5}" "({..<5} \<subseteq> insert i H) = ({..<5} \<subseteq> H)"
      using out by auto
    with inv out show ?thesis unfolding same
      by (auto simp: round_state_def NUM_SEAGULLS_def)
  next
    case again
    then have "isHit (seagulls s ! i)" using each by simp
    then have "Seagull_hit (seagulls s ! i) = (seagulls s ! i, [])"
      by (simp add: Seagull_hit_def)
    then have same: "Scene_hit_seagull i s = s"
      by (simp add: Scene_hit_seagull_def)
    have "insert i H = H" using again by auto
    with inv show ?thesis unfolding same by simp
  next
    case fresh
    let ?g = "seagulls s ! i"
    let ?g1 = "fst (Seagull_hit ?g)"
    let ?s1 = "s\<lparr>seagulls := (seagulls s)[i := ?g1]\<rparr>"
    from fresh each have g: "\<not> isHit ?g" "onHitCallback ?g" by simp_all
    from Seagull_hit_fresh[OF g] have cb: "CallOnHit \<in> set (snd (Seagull_hit ?g))"
      and cb1: "onHitCallback ?g1" by simp_all
    have hit1: "isHit ?g1"
      by (simp add: Seagull_hit_def Seagull_dispose_def Let_def case_prod_beta
            split: option.splits)
    have res: "Scene_hit_seagull i s = handleSeagullHit ?s1"
      using fresh cb by (simp add: Scene_hit_seagull_def len case_prod_beta Let_def)
    note c = card_hits[OF fresh]
    have rem1: "remainingSeagulls ?s1 - 1 = 5 - int (card (insert i H \<inter> {..<5}))"
      using rem c(1) by simp
    have win: "(remainingSeagulls ?s1 - 1 \<le> 0) = ({..<5} \<subseteq> insert i H)"
      unfolding rem1 using c(2,3) by linarith
    have sig0: "winSignals ?s1 = w0" "winScreen ?s1 = Some False" using sig scr c(4) by simp_all
    have each1: "onHitCallback ((seagulls s)[i := ?g1] ! j) \<and>
                 isHit ((seagulls s)[i := ?g1] ! j) = (j \<in> insert i H)" if "j < 5" for j
      using that each[OF that] cb1 hit1 len by (cases "j = i") simp_all
    show ?thesis
      unfolding res round_state_def NUM_SEAGULLS_def handleSeagullHit_def showWinScreen_def Let_def
      using each1 rem1 win sig0 scr len
      by (auto split: option.splits)
  qed
qed

lemma Scene_hit_seagulls_round:
  "round_state w0 H s \<Longrightarrow> round_state w0 (H \<union> set is) (Scene_hit_seagulls is s)"
proof (induction "is" arbitrary: H s)
  case Nil
  then show ?case by simp
next
  case (Cons i "is")
  from Cons.IH[OF Scene_hit_seagull_round[OF Cons.prems, of i]]
  show ?case by simp
qed


text \<open>
  Claim C3.  The scene creates 5 seagulls and sets the countdown to 5.  After any
  sequence of hit notifications for seagulls of the scene (repeated ones
  included), the win screen has been switched on exactly once if every one of the
  5 seagulls has been notified, and not at all otherwise; the countdown is 5 minus
  the number of distinct seagulls notified.  In particular, after notifications
  for pairwise different seagulls the win signal has been given once if there were
  5 of them and not at all if there were 4 or fewer.  The same holds after
  \<open>resetGame\<close>, counting from the signals given before.
\<close>

theorem C3_win_signal:
  "winSignals (Scene_hit_seagulls is (fst (resetGame s rnd k)))
     = winSignals s + (if {..<5} \<subseteq> set is then 1 else 0) \<and>
   winSignals (Scene_hit_seagulls is (fst (ExampleScene_new ground rnd k)))
     = (if {..<5} \<subseteq> set is then 1 else 0) \<and>
   winScreen (Scene_hit_seagulls is (fst (ExampleScene_new ground rnd k)))
     = Some ({..<5} \<subseteq> set is) \<and>
   remainingSeagulls (Scene_hit_seagulls is (fst (ExampleScene_new ground rnd k)))
     = 5 - int (card (set is \<inter> {..<5})) \<and>
   (distinct is \<and> set is \<subseteq> {..<5} \<longrightarrow>
      winSignals (Scene_hit_seagulls is (fst (ExampleScene_new ground rnd k)))
        = (if length is = 5 then 1 else 0))"
proof -
  define s0 where "s0 = \<lparr>children = [], seagulls = [], remainingSeagulls = 0, winScreen = None,
        winSignals = 0, physicsWorld = PhysicsWorld_new ground, balls = [],
        released = []\<rparr>"
  have new: "ExampleScene_new ground rnd k = initSeagulls (s0\<lparr>seagulls := []\<rparr>) rnd k"
    by (simp add: ExampleScene_new_def s0_def)
  have w0: "winSignals s0 = 0" by (simp add: s0_def)
  have r1: "round_state (winSignals s) ({} \<union> set is)
              (Scene_hit_seagulls is (fst (resetGame s rnd k)))"
    unfolding resetGame_def by (intro Scene_hit_seagulls_round initSeagulls_round)
  have r2: "round_state 0 ({} \<union> set is)
              (Scene_hit_seagulls is (fst (ExampleScene_new ground rnd k)))"
    unfolding new w0[symmetric] by (intro Scene_hit_seagulls_round initSeagulls_round)
  have len: "({..<5} \<subseteq> set is) = (length is = 5)" if "distinct is" "set is \<subseteq> {..<5}"
  proof
    assume "{..<5} \<subseteq> set is"
    with that have "set is = {..<5::nat}" by blast
    then have "card (set is) = 5" by simp
    with that(1) show "length is = 5" by (simp add: distinct_card)
  next
    assume "length is = 5"
    with that(1) have "card (set is) = card {..<5::nat}" by (simp add: distinct_card)
    with that(2) have "set is = {..<5}" by (intro card_subset_eq) auto
    then show "{..<5} \<subseteq> set is" by simp
  qed
  from r1 have a: "winSignals (Scene_hit_seagulls is (fst (resetGame s rnd k)))
     = winSignals s + (if {..<5} \<subseteq> set is then 1 else 0)"
    by (simp add: round_state_def NUM_SEAGULLS_def)
  from r2 have b: "winSignals (Scene_hit_seagulls is (fst (ExampleScene_new ground rnd k)))
     = (if {..<5} \<subseteq> set is then 1 else 0)"
    and c: "winScreen (Scene_hit_seagulls is (fst (ExampleScene_new ground rnd k)))
     = Some ({..<5} \<subseteq> set is)"
    and d: "remainingSeagulls (Scene_hit_seagulls is (fst (ExampleScene_new ground rnd k)))
     = 5 - int (card (set is \<inter> {..<5}))"
    by (simp_all add: round_state_def NUM_SEAGULLS_def)
  have e: "winSignals (Scene_hit_seagulls is (fst (ExampleScene_new ground rnd k)))
        = (if length is = 5 then 1 else 0)" if "distinct is \<and> set is \<subseteq> {..<5}"
    unfolding b using len that by simp
  from a b c d e show ?thesis by blast
qed

theorem C3_win_signal_witness:
  "winSignals (Scene_hit_seagulls [0, 1, 2, 3]
      (fst (ExampleScene_new 0 (constant_random (1 / 2)) 0))) = 0 \<and>
   winScreen (Scene_hit_seagulls [0, 1, 2, 3]
      (fst (ExampleScene_new 0 (constant_random (1 / 2)) 0))) = Some False \<and>
   winSignals (Scene_hit_seagulls [0, 1, 2, 3, 4]
      (fst (ExampleScene_new 0 (constant_random (1 / 2)) 0))) = 1 \<and>
   winScreen (Scene_hit_seagulls [0, 1, 2, 3, 4]
      (fst (ExampleScene_new 0 (constant_random (1 / 2)) 0))) = Some True \<and>
   winSignals (Scene_hit_seagulls [3, 3, 0, 1, 2, 3, 4, 4, 0]
      (fst (ExampleScene_new 0 (constant_random (1 / 2)) 0))) = 1"
proof -
  have five: "{..<5::nat} = {0, 1, 2, 3, 4}" by auto
  show ?thesis
    using C3_win_signal[of "[0, 1, 2, 3]" _ "constant_random (1 / 2)" 0 0]
      C3_win_signal[of "[0, 1, 2, 3, 4]" _ "constant_random (1 / 2)" 0 0]
      C3_win_signal[of "[3, 3, 0, 1, 2, 3, 4, 4, 0]" _ "constant_random (1 / 2)" 0 0]
    by (simp add: five)
qed

section \<open>Properties of the raycast bounce\<close>

lemma Vector3_reflect_unit:
  assumes "Vector3_dot n n = 1"
  shows "Vector3_dot (Vector3_reflect v n) n = - Vector3_dot v n"
    and "Vector3_lengthSq (Vector3_reflect v n) = Vector3_lengthSq v"
proof -
  obtain a b c where v: "v = Vec3 a b c" by (cases v)
  obtain x y z where n: "n = Vec3 x y z" by (cases n)
  define d where "d = a * x + b * y + c * z"
  from assms have u: "x * x + y * y + z * z = 1" by (simp add: n Vector3_dot_def)
  have r: "Vector3_reflect v n = Vec3 (a - x * (2 * d)) (b - y * (2 * d)) (c - z * (2 * d))"
    by (simp add: v n d_def Vector3_reflect_def Vector3_sub_def Vector3_multiplyScalar_def
          Vector3_dot_def)
  have "(a - x * (2 * d)) * x + (b - y * (2 * d)) * y + (c - z * (2 * d)) * z
          = d - 2 * d * (x * x + y * y + z * z)"
    by (simp add: d_def algebra_simps)
  then show "Vector3_dot (Vector3_reflect v n) n = - Vector3_dot v n"
    unfolding r u by (simp add: Vector3_dot_def v n d_def)
  have "(a - x * (2 * d)) * (a - x * (2 * d)) + (b - y * (2 * d)) * (b - y * (2 * d))
          + (c - z * (2 * d)) * (c - z * (2 * d))
        = (a * a + b * b + c * c) - 4 * d * (a * x + b * y + c * z)
          + 4 * d * d * (x * x + y * y + z * z)"
    by (simp add: algebra_simps)
  then show "Vector3_lengthSq (Vector3_reflect v n) = Vector3_lengthSq v"
    unfolding r u by (simp add: Vector3_lengthSq_def v d_def)
qed

text \<open>
  What the bounce branch of the raycast path does: when the nearest intersection
  lies within the distance the ball travels this tick, is no seagull and has a
  face normal, the new velocity is the old one reflected about the face normal
  rotated by the object's own quaternion, times 0.6, and the ball is put at the
  impact point plus 0.2 times that vector; the free-flight code is not run.  The
  reflection is \<open>v - 2 (v . n) n\<close>; for a unit \<open>n\<close> it reverses the component
  along \<open>n\<close> and keeps the length.
\<close>

lemma update_ball_bounce:
  assumes "intersectObjects (ball_position p) (Vector3_normalize (velocity p)) = collision # rest"
    and "distance collision < Vector3_length (velocity p) * delta"
    and "\<not> object_isSeagull collision"
    and "face_normal collision = Some normal"
  shows
    "(let normalWorld = Vector3_applyQuaternion normal (object_quaternion collision);
          reflected = Vector3_reflect (velocity p) normalWorld
      in update_ball True intersectObjects delta p =
           Bounced
             \<lparr>ball_position = Vector3_addScaledVector (point collision) normalWorld 0.2,
              velocity = Vector3_multiplyScalar reflected 0.6\<rparr> \<and>
         reflected =
           Vector3_sub (velocity p)
             (Vector3_multiplyScalar normalWorld (2 * Vector3_dot (velocity p) normalWorld)) \<and>
         (Vector3_dot normalWorld normalWorld = 1 \<longrightarrow>
            Vector3_dot reflected normalWorld = - Vector3_dot (velocity p) normalWorld \<and>
            Vector3_lengthSq reflected = Vector3_lengthSq (velocity p))) \<and>
     update_ball True intersectObjects delta p \<noteq> Moved (move_freely delta p) \<and>
     Vector3_multiplyScalar (Vector3_reflect (Vec3 0 (- 1) 0) (Vec3 0 1 0)) BOUNCE_FACTOR
       = Vec3 0 0.6 0"
proof -
  let ?n = "Vector3_applyQuaternion normal (object_quaternion collision)"
  have run: "update_ball True intersectObjects delta p =
           Bounced
             \<lparr>ball_position = Vector3_addScaledVector (point collision) ?n 0.2,
              velocity = Vector3_multiplyScalar (Vector3_reflect (velocity p) ?n) 0.6\<rparr>"
    using assms by (simp add: update_ball_def Let_def BOUNCE_FACTOR_def)
  have ex: "Vector3_multiplyScalar (Vector3_reflect (Vec3 0 (- 1) 0) (Vec3 0 1 0)) BOUNCE_FACTOR
       = Vec3 0 0.6 0"
    by (simp add: Vector3_reflect_def BOUNCE_FACTOR_def Vector3_multiplyScalar_def
          Vector3_sub_def Vector3_dot_def)
  from run ex Vector3_reflect_unit[of ?n "velocity p"] show ?thesis
    by (simp add: Let_def Vector3_reflect_def)
qed

lemma update_ball_bounce_example:
  "update_ball True example_intersectObjects (2 / 125)
       \<lparr>ball_position = Vec3 0 (1 / 100) 0, velocity = Vec3 0 (- 1) 0\<rparr>
     = Bounced \<lparr>ball_position = Vec3 0 (1 / 5) 0, velocity = Vec3 0 (3 / 5) 0\<rparr>"
proof -
  let ?p = "\<lparr>ball_position = Vec3 0 (1 / 100) 0, velocity = Vec3 0 (- 1) 0\<rparr>"
  let ?c = "\<lparr>distance = 1 / 100, point = Vec3 0 0 0, face_normal = Some (Vec3 0 1 0),
       object_id = 7, object_isSeagull = False, object_quaternion = Quat 0 0 0 1,
       object_world_quaternion = Quat 0 0 0 1\<rparr>"
  have h1: "example_intersectObjects (ball_position ?p) (Vector3_normalize (velocity ?p))
              = ?c # []"
    by (simp add: example_intersectObjects_def)
  have h2: "distance ?c < Vector3_length (velocity ?p) * (2 / 125)"
    by (simp add: Vector3_length_def)
  have h3: "\<not> object_isSeagull ?c" and h4: "face_normal ?c = Some (Vec3 0 1 0)"
    by simp_all
  note bounce = update_ball_bounce[where intersectObjects = example_intersectObjects
      and p = ?p and collision = ?c and rest = "[]" and delta = "2 / 125"
      and normal = "Vec3 0 1 0"]
  from bounce[OF h1 h2 h3 h4] show ?thesis
    by (simp add: Let_def Vector3_reflect_def Vector3_applyQuaternion_def Vector3_addScaledVector_def
          Vector3_multiplyScalar_def Vector3_sub_def Vector3_dot_def)
qed

text \<open>
  Where the object hit has no rotated ancestor, its own rotation is its world
  rotation, and the bounce branch does what claim C7 says.
\<close>

lemma update_ball_bounce_world:
  assumes "intersectObjects (ball_position p) (Vector3_normalize (velocity p)) = collision # rest"
    and "distance collision < Vector3_length (velocity p) * delta"
    and "\<not> object_isSeagull collision"
    and "face_normal collision = Some normal"
    and "object_world_quaternion collision = object_quaternion collision"
  shows "update_ball True intersectObjects delta p =
           Bounced (bounce_about_world_normal collision normal p)"
  using assms by (simp add: update_ball_def bounce_about_world_normal_def Let_def)

lemma incoming_ball_speed: "Vector3_length (velocity incoming_ball) = 5"
proof -
  have "sqrt 25 = (5::real)"
    by (rule real_sqrt_unique) (simp_all add: power2_eq_square)
  then show ?thesis by (simp add: incoming_ball_def Vector3_length_def)
qed

text \<open>
  The world rotation of the nested mesh is its parent's rotation composed with its
  own.
\<close>

lemma nested_world_rotation:
  "object_world_quaternion nested_collision =
     Quaternion_multiply (Quat (1 / 2) (1 / 2) (1 / 2) (1 / 2))
       (object_quaternion nested_collision) \<and>
   Vector3_applyQuaternion
       (Vector3_applyQuaternion (Vec3 1 0 0) (object_quaternion nested_collision))
       (Quat (1 / 2) (1 / 2) (1 / 2) (1 / 2))
     = Vector3_applyQuaternion (Vec3 1 0 0) (object_world_quaternion nested_collision)"
  by (simp add: nested_collision_def Quaternion_multiply_def Vector3_applyQuaternion_def
        Let_def)

text \<open>
  Claim C7: in the raycast path a ball that hits a surface other than a seagull
  bounces off the world-space normal of the face hit.  The code rotates the face
  normal by the quaternion of the object hit alone.  For the hit on the nested
  mesh the code's vector is (0, 1, 0) while the world-space normal is (0, 0, 1):
  the incoming ball, with velocity (0, -3, -4), leaves with velocity
  (0, 9/5, -12/5), still moving into the face, from the point (0, 1/5, 0); a bounce
  off the world-space normal gives velocity (0, -9/5, 12/5) from (0, 0, 1/5).
\<close>

theorem C7_bounce_ignores_parent_rotation:
  "nested_intersectObjects (ball_position incoming_ball)
       (Vector3_normalize (velocity incoming_ball)) = [nested_collision] \<and>
   distance nested_collision < Vector3_length (velocity incoming_ball) * (2 / 125) \<and>
   \<not> object_isSeagull nested_collision \<and>
   face_normal nested_collision = Some (Vec3 1 0 0) \<and>
   Vector3_applyQuaternion (Vec3 1 0 0) (object_quaternion nested_collision) = Vec3 0 1 0 \<and>
   Vector3_applyQuaternion (Vec3 1 0 0) (object_world_quaternion nested_collision)
     = Vec3 0 0 1 \<and>
   update_ball True nested_intersectObjects (2 / 125) incoming_ball
     = Bounced \<lparr>ball_position = Vec3 0 (1 / 5) 0, velocity = Vec3 0 (9 / 5) (- (12 / 5))\<rparr> \<and>
   bounce_about_world_normal nested_collision (Vec3 1 0 0) incoming_ball
     = \<lparr>ball_position = Vec3 0 0 (1 / 5), velocity = Vec3 0 (- (9 / 5)) (12 / 5)\<rparr>"
proof -
  have lq: "Vector3_applyQuaternion (Vec3 1 0 0) (Quat (1 / 2) (1 / 2) (1 / 2) (1 / 2))
              = Vec3 0 1 0"
    and wq: "Vector3_applyQuaternion (Vec3 1 0 0) (Quat (1 / 2) (1 / 2) (1 / 2) (- (1 / 2)))
              = Vec3 0 0 1"
    by (simp_all add: Vector3_applyQuaternion_def Let_def)
  have far: "distance nested_collision < Vector3_length (velocity incoming_ball) * (2 / 125)"
    unfolding incoming_ball_speed by (simp add: nested_collision_def)
  have run: "update_ball True nested_intersectObjects (2 / 125) incoming_ball
     = Bounced \<lparr>ball_position = Vec3 0 (1 / 5) 0, velocity = Vec3 0 (9 / 5) (- (12 / 5))\<rparr>"
    using far
    by (simp add: update_ball_def nested_intersectObjects_def Let_def)
       (simp add: nested_collision_def lq incoming_ball_def Vector3_reflect_def
          Vector3_addScaledVector_def Vector3_multiplyScalar_def Vector3_sub_def
          Vector3_dot_def BOUNCE_FACTOR_def)
  have want: "bounce_about_world_normal nested_collision (Vec3 1 0 0) incoming_ball
     = \<lparr>ball_position = Vec3 0 0 (1 / 5), velocity = Vec3 0 (- (9 / 5)) (12 / 5)\<rparr>"
    by (simp add: bounce_about_world_normal_def nested_collision_def wq incoming_ball_def
          Vector3_reflect_def Vector3_addScaledVector_def Vector3_multiplyScalar_def
          Vector3_sub_def Vector3_dot_def BOUNCE_FACTOR_def)
  from far run want show ?thesis
    by (simp add: nested_intersectObjects_def)
       (simp add: nested_collision_def lq wq)
qed

end
